theory Spec2Isabelle
  imports Complex_Main
begin

section \<open>Read preference (lib/read\_preference.js)\<close>

text \<open>
  The constructor is called with JavaScript values, so each argument gets a small datatype
  of the shapes the constructor tells apart: strict equality against the mode constants,
  \<open>typeof tags === 'object'\<close>, \<open>Array.isArray(tags)\<close>, truthiness and
  \<open>options === undefined\<close>.
\<close>

datatype jsMode = ModeString string | ModeNull | ModeUndefined

definition PRIMARY :: string where "PRIMARY = ''primary''"
definition PRIMARY_PREFERRED :: string where "PRIMARY_PREFERRED = ''primaryPreferred''"
definition SECONDARY :: string where "SECONDARY = ''secondary''"
definition SECONDARY_PREFERRED :: string where "SECONDARY_PREFERRED = ''secondaryPreferred''"
definition NEAREST :: string where "NEAREST = ''nearest''"

definition VALID_MODES :: "jsMode list" where
  "VALID_MODES = [ModeString PRIMARY, ModeString PRIMARY_PREFERRED, ModeString SECONDARY,
     ModeString SECONDARY_PREFERRED, ModeString NEAREST, ModeNull]"

text \<open>\<open>ReadPreference.isValid\<close>: \<open>VALID_MODES.indexOf(mode) !== -1\<close>.\<close>

definition isValid :: "jsMode \<Rightarrow> bool" where
  "isValid m = (m \<in> set VALID_MODES)"

record hedgeDoc =
  enabled :: "bool option"

type_synonym tagSet = "(string \<times> string) list"

text \<open>
  A JavaScript number: a finite value, \<open>NaN\<close> or an infinity. \<open>NaN\<close> is not
  \<open>null\<close>, is not \<open><= 0\<close> and is falsy.
\<close>

datatype jsNumber = Num real | NaN | PlusInfinity | MinusInfinity

record rpOptions =
  opt_maxStalenessSeconds :: "jsNumber option"
  opt_hedge :: "hedgeDoc option"

text \<open>
  The second argument: \<open>undefined\<close>, \<open>null\<close>, an array of tag sets, a non-array
  object (read as an options object), or any other value (a string, number, boolean or
  function), of which only the truthiness matters.
\<close>

datatype tagsArg =
    TagsUndefined
  | TagsNull
  | TagsArray "tagSet list"
  | TagsObject rpOptions
  | TagsOther bool

datatype optionsArg = OptionsUndefined | OptionsNull | OptionsObject rpOptions

datatype typeError =
    InvalidMode
  | TagsMustBeArray
  | MaxStalenessNotPositive
  | PrimaryWithTags
  | PrimaryWithMaxStaleness
  | PrimaryWithHedge

record readPreference =
  mode :: jsMode
  tags :: tagsArg
  hedge :: "hedgeDoc option"
  maxStalenessSeconds :: "jsNumber option"
  minWireVersion :: "nat option"

fun isArray :: "tagsArg \<Rightarrow> bool" where
  "isArray (TagsArray ts) = True"
| "isArray t = False"

fun typeofObject :: "tagsArg \<Rightarrow> bool" where
  "typeofObject TagsNull = True"
| "typeofObject (TagsArray ts) = True"
| "typeofObject (TagsObject ob) = True"
| "typeofObject t = False"

fun truthy :: "tagsArg \<Rightarrow> bool" where
  "truthy TagsUndefined = False"
| "truthy TagsNull = False"
| "truthy (TagsArray ts) = True"
| "truthy (TagsObject ob) = True"
| "truthy (TagsOther b) = b"

fun asOptions :: "tagsArg \<Rightarrow> optionsArg" where
  "asOptions (TagsObject ob) = OptionsObject ob"
| "asOptions TagsNull = OptionsNull"
| "asOptions t = OptionsUndefined"

text \<open>
  Lines 21 to 26 of the constructor: a non-array object in second position with no third
  argument is the options object; any other truthy non-array second argument is refused.
\<close>

definition normalizeArgs :: "tagsArg \<Rightarrow> optionsArg \<Rightarrow> typeError + (tagsArg \<times> optionsArg)" where
  "normalizeArgs tgs options =
     (if options = OptionsUndefined \<and> typeofObject tgs \<and> \<not> isArray tgs
      then Inr (TagsUndefined, asOptions tgs)
      else if truthy tgs \<and> \<not> isArray tgs then Inl TagsMustBeArray
      else Inr (tgs, options))"

text \<open>\<open>options && options.hedge\<close>, then \<open>options = options || {}\<close>.\<close>

fun hedgeOf :: "optionsArg \<Rightarrow> hedgeDoc option" where
  "hedgeOf (OptionsObject ob) = opt_hedge ob"
| "hedgeOf ob = None"

fun maxStalenessOf :: "optionsArg \<Rightarrow> jsNumber option" where
  "maxStalenessOf (OptionsObject ob) = opt_maxStalenessSeconds ob"
| "maxStalenessOf ob = None"

fun nonEmptyArray :: "tagsArg \<Rightarrow> bool" where
  "nonEmptyArray (TagsArray ts) = (0 < length ts)"
| "nonEmptyArray t = False"

text \<open>\<open>options.maxStalenessSeconds <= 0\<close>.\<close>

fun leqZero :: "jsNumber \<Rightarrow> bool" where
  "leqZero (Num r) = (r \<le> 0)"
| "leqZero NaN = False"
| "leqZero PlusInfinity = False"
| "leqZero MinusInfinity = True"

text \<open>
  \<open>if (this.maxStalenessSeconds)\<close>: a number is truthy when it is neither zero nor
  \<open>NaN\<close>.
\<close>

fun truthyNumber :: "jsNumber option \<Rightarrow> bool" where
  "truthyNumber None = False"
| "truthyNumber (Some (Num r)) = (r \<noteq> 0)"
| "truthyNumber (Some NaN) = False"
| "truthyNumber (Some PlusInfinity) = True"
| "truthyNumber (Some MinusInfinity) = True"

definition primaryChecks :: "readPreference \<Rightarrow> typeError + readPreference" where
  "primaryChecks rp =
     (if mode rp = ModeString PRIMARY then
        (if nonEmptyArray (tags rp) then Inl PrimaryWithTags
         else if truthyNumber (maxStalenessSeconds rp) then Inl PrimaryWithMaxStaleness
         else if hedge rp \<noteq> None then Inl PrimaryWithHedge
         else Inr rp)
      else Inr rp)"

definition ReadPreference :: "jsMode \<Rightarrow> tagsArg \<Rightarrow> optionsArg \<Rightarrow> typeError + readPreference" where
  "ReadPreference md tgs options =
     (if \<not> isValid md then Inl InvalidMode
      else case normalizeArgs tgs options of
        Inl e \<Rightarrow> Inl e
      | Inr (tgs', options') \<Rightarrow>
          (case maxStalenessOf options' of
             Some v \<Rightarrow>
               (if leqZero v then Inl MaxStalenessNotPositive
                else primaryChecks \<lparr>mode = md, tags = tgs', hedge = hedgeOf options',
                       maxStalenessSeconds = Some v, minWireVersion = Some 5\<rparr>)
           | None \<Rightarrow>
               primaryChecks \<lparr>mode = md, tags = tgs', hedge = hedgeOf options',
                 maxStalenessSeconds = None, minWireVersion = None\<rparr>))"

text \<open>\<open>ReadPreference.prototype.equals\<close>: \<open>readPreference.mode === this.mode\<close>.\<close>

definition equals :: "readPreference \<Rightarrow> readPreference \<Rightarrow> bool" where
  "equals this readPreference = (mode readPreference = mode this)"

section \<open>Server monitor (lib/core/sdam/monitor.js)\<close>

subsection \<open>Data\<close>

datatype monitorState = STATE_CLOSED | STATE_CLOSING | STATE_IDLE | STATE_MONITORING

text \<open>The table handed to \<open>makeStateMachine\<close>: the states that may follow each state.\<close>

fun legalStates :: "monitorState \<Rightarrow> monitorState list" where
  "legalStates STATE_CLOSING = [STATE_CLOSING, STATE_IDLE, STATE_CLOSED]"
| "legalStates STATE_CLOSED = [STATE_CLOSED, STATE_MONITORING]"
| "legalStates STATE_IDLE = [STATE_IDLE, STATE_MONITORING, STATE_CLOSING]"
| "legalStates STATE_MONITORING = [STATE_MONITORING, STATE_IDLE, STATE_CLOSING]"

definition INVALID_REQUEST_CHECK_STATES :: "monitorState list" where
  "INVALID_REQUEST_CHECK_STATES = [STATE_CLOSING, STATE_CLOSED, STATE_MONITORING]"

text \<open>
  Modelled from the spec: \<open>ServerType\<close> of \<open>./common\<close> is not among the sources. The
  spec: the role a server currently plays (primary, secondary, unknown). The monitor only
  compares a description's type with \<open>ServerType.Unknown\<close>.
\<close>

datatype serverType = Unknown | Primary | Secondary

record topologyVersion =
  processId :: nat
  counter :: int

text \<open>
  \<open>makeTopologyVersion\<close> copies the process id and passes the counter through
  \<open>BSON.Long.fromNumber\<close>, a function of the BSON library; its result is kept symbolic.
\<close>

datatype long = Long_fromNumber int

record cmdTopologyVersion =
  cmd_processId :: nat
  cmd_counter :: long

definition makeTopologyVersion :: "topologyVersion \<Rightarrow> cmdTopologyVersion" where
  "makeTopologyVersion tv = \<lparr>cmd_processId = processId tv, cmd_counter = Long_fromNumber (counter tv)\<rparr>"

record serverDescription =
  sd_type :: serverType
  sd_topologyVersion :: "topologyVersion option"

text \<open>The handshake reply; the monitor reads its \<open>topologyVersion\<close> only.\<close>

record isMaster =
  im_topologyVersion :: "topologyVersion option"

record connection =
  conn_id :: nat
  ismaster :: isMaster

datatype error = MongoNetworkError string | MongoError string

fun instanceofMongoNetworkError :: "error \<Rightarrow> bool" where
  "instanceofMongoNetworkError (MongoNetworkError msg) = True"
| "instanceofMongoNetworkError (MongoError msg) = False"

record monitorOptions =
  connectTimeoutMS :: real
  heartbeatFrequencyMS :: real
  minHeartbeatFrequencyMS :: real

text \<open>The options object given to the constructor; \<open>None\<close> is a field that is not a number.\<close>

record rawOptions =
  raw_connectionTimeout :: "real option"
  raw_connectTimeoutMS :: "real option"
  raw_heartbeatFrequencyMS :: "real option"
  raw_minHeartbeatFrequencyMS :: "real option"

text \<open>The command document and the options of \<open>Connection.command\<close>.\<close>

record command =
  cmd_ismaster :: bool
  cmd_maxAwaitTimeMS :: "real option"
  cmd_topologyVersion :: "cmdTopologyVersion option"

record commandOptions =
  socketTimeout :: real
  exhaustAllowed :: bool

text \<open>Events emitted on the monitor, with their payloads (durations in milliseconds).\<close>

datatype event =
    Ev_monitoring
  | ServerHeartbeatStarted string
  | ServerHeartbeatSucceeded real isMaster string
  | ServerHeartbeatFailed real error string
  | Ev_resetServer error
  | Ev_resetConnectionPool
  | Ev_close

text \<open>
  What the monitor does to its collaborators, in order: events emitted, the cancellation
  token signalled, the private connection destroyed (with the \<open>force\<close> flag), a command
  sent on the private connection, a connection attempt started.
\<close>

datatype effect =
    Emit event
  | Cancel
  | Destroy bool
  | Command string command commandOptions
  | ConnectCall

text \<open>
  A timer of the runtime. The callback armed by \<open>reset\<close> calls \<open>requestCheck\<close>; the one
  armed by \<open>rescheduleMonitoring\<close> forgets the handle first. A delay of \<open>None\<close> is
  \<open>setTimeout\<close> with an undefined delay: the callback runs as soon as the runtime allows.
\<close>

datatype timerCallback = CB_requestCheck | CB_forget_requestCheck

record timer =
  handle :: nat
  callback :: timerCallback
  delay :: "real option"

text \<open>
  Input and output in flight, one entry per call of \<open>checkServer\<close> whose callback has not
  run to its end: the \<open>start\<close> stamp the closure holds, and for a command whether it is
  awaitable.
\<close>

datatype pendingIO = PendingCommand real bool | PendingConnect real

record monitor =
  address :: string
  options :: monitorOptions
  s_state :: monitorState
  kServer :: serverDescription
  kConnection :: "connection option"
  kMonitorId :: "nat option"
  kLastCheckTime :: "real option"
  timers :: "timer list"
  nextTimerId :: nat
  inflight :: "pendingIO list"
  nextTicks :: "event list"
  trace :: "effect list"

subsection \<open>Construction\<close>

fun numberOr :: "real option \<Rightarrow> real \<Rightarrow> real" where
  "numberOr (Some v) d = v"
| "numberOr None d = d"

definition Monitor :: "string \<Rightarrow> serverDescription \<Rightarrow> rawOptions \<Rightarrow> monitor" where
  "Monitor addr description opts =
     \<lparr>address = addr,
      options = \<lparr>connectTimeoutMS =
                   (case raw_connectionTimeout opts of Some v \<Rightarrow> v
                    | None \<Rightarrow> numberOr (raw_connectTimeoutMS opts) 10000),
                 heartbeatFrequencyMS = numberOr (raw_heartbeatFrequencyMS opts) 10000,
                 minHeartbeatFrequencyMS = numberOr (raw_minHeartbeatFrequencyMS opts) 500\<rparr>,
      s_state = STATE_CLOSED,
      kServer = description,
      kConnection = None,
      kMonitorId = None,
      kLastCheckTime = None,
      timers = [],
      nextTimerId = 0,
      inflight = [],
      nextTicks = [],
      trace = []\<rparr>"

subsection \<open>Runtime primitives\<close>

text \<open>
  Modelled from the spec: \<open>makeStateMachine\<close> of \<open>../utils\<close> is not among the sources.
  The spec: transitions outside the table are rejected (no-op).
\<close>

definition stateTransition :: "monitorState \<Rightarrow> monitor \<Rightarrow> monitor" where
  "stateTransition newState m =
     (if newState \<in> set (legalStates (s_state m)) then m\<lparr>s_state := newState\<rparr> else m)"

text \<open>
  The listeners of the monitor's events and of the cancellation token are collaborators
  outside the sources: an emission is recorded in the trace, in order, and not dispatched.
\<close>

definition emit :: "event \<Rightarrow> monitor \<Rightarrow> monitor" where
  "emit e m = m\<lparr>trace := trace m @ [Emit e]\<rparr>"

definition effect :: "effect \<Rightarrow> monitor \<Rightarrow> monitor" where
  "effect x m = m\<lparr>trace := trace m @ [x]\<rparr>"

text \<open>\<open>clearTimeout\<close> of a handle that is undefined, or whose timer is gone, does nothing.\<close>

fun clearTimeout :: "nat option \<Rightarrow> monitor \<Rightarrow> monitor" where
  "clearTimeout None m = m"
| "clearTimeout (Some h) m = m\<lparr>timers := filter (\<lambda>t. handle t \<noteq> h) (timers m)\<rparr>"

text \<open>\<open>this[kMonitorId] = setTimeout(cb, ms)\<close>: a fresh handle, stored in the monitor.\<close>

definition setTimeout :: "timerCallback \<Rightarrow> real option \<Rightarrow> monitor \<Rightarrow> monitor" where
  "setTimeout cb ms m =
     m\<lparr>timers := timers m @ [\<lparr>handle = nextTimerId m, callback = cb, delay = ms\<rparr>],
       nextTimerId := Suc (nextTimerId m),
       kMonitorId := Some (nextTimerId m)\<rparr>"

text \<open>
  Modelled from the spec: \<open>calculateDurationInMs\<close> of \<open>../utils\<close> is not among the
  sources. The spec: the time elapsed since the stamp. \<open>now\<close> is the reading of
  \<open>process.hrtime()\<close> in milliseconds; with no stamp, \<open>process.hrtime(undefined)\<close> is
  the reading itself.
\<close>

fun calculateDurationInMs :: "real \<Rightarrow> real option \<Rightarrow> real" where
  "calculateDurationInMs now None = now"
| "calculateDurationInMs now (Some started) = now - started"

subsection \<open>The scheduling loop\<close>

definition rescheduleMonitoring :: "real \<Rightarrow> real option \<Rightarrow> monitor \<Rightarrow> monitor" where
  "rescheduleMonitoring now ms m =
     (if s_state m = STATE_CLOSING \<or> s_state m = STATE_CLOSED then m
      else
        let m1 = stateTransition STATE_IDLE m;
            m2 = (if kMonitorId m1 \<noteq> None then clearTimeout (kMonitorId m1) m1 else m1);
            m3 = m2\<lparr>kLastCheckTime := Some now\<rparr>
        in setTimeout CB_forget_requestCheck ms m3)"

text \<open>
  The callback \<open>monitorServer\<close> hands to \<open>checkServer\<close>; \<open>err\<close> and \<open>isMaster\<close> are
  \<open>None\<close> where the JavaScript argument is undefined.
\<close>

definition monitorServer_callback ::
    "real \<Rightarrow> error option \<Rightarrow> isMaster option \<Rightarrow> monitor \<Rightarrow> monitor" where
  "monitorServer_callback now err reply m =
     (if err \<noteq> None \<and> sd_type (kServer m) \<noteq> Unknown then rescheduleMonitoring now None m
      else if (case reply of None \<Rightarrow> False | Some im \<Rightarrow> im_topologyVersion im \<noteq> None)
        then rescheduleMonitoring now None m
      else rescheduleMonitoring now (Some (heartbeatFrequencyMS (options m))) m)"

subsection \<open>One round: checkServer\<close>

definition failureHandler :: "real \<Rightarrow> real \<Rightarrow> error \<Rightarrow> monitor \<Rightarrow> monitor" where
  "failureHandler now start err m =
     (let m1 = (if kConnection m \<noteq> None then (effect (Destroy True) m)\<lparr>kConnection := None\<rparr>
                else m);
          m2 = emit (ServerHeartbeatFailed (calculateDurationInMs now (Some start)) err
                 (address m1)) m1;
          m3 = emit (Ev_resetServer err) m2;
          m4 = (if instanceofMongoNetworkError err then emit Ev_resetConnectionPool m3 else m3)
      in monitorServer_callback now (Some err) None m4)"

definition checkServer :: "real \<Rightarrow> monitor \<Rightarrow> monitor" where
  "checkServer now m =
     (let m1 = emit (ServerHeartbeatStarted (address m)) m in
      if kConnection m1 \<noteq> None then
        (let connectTimeout = connectTimeoutMS (options m1);
             maxAwaitTimeMS = heartbeatFrequencyMS (options m1);
             tv = sd_topologyVersion (kServer m1);
             isAwaitable = (tv \<noteq> None);
             cmd = (if isAwaitable
                    then \<lparr>cmd_ismaster = True, cmd_maxAwaitTimeMS = Some maxAwaitTimeMS,
                          cmd_topologyVersion = map_option makeTopologyVersion tv\<rparr>
                    else \<lparr>cmd_ismaster = True, cmd_maxAwaitTimeMS = None,
                          cmd_topologyVersion = None\<rparr>);
             copts = (if isAwaitable
                      then \<lparr>socketTimeout = connectTimeout + maxAwaitTimeMS,
                            exhaustAllowed = True\<rparr>
                      else \<lparr>socketTimeout = connectTimeout, exhaustAllowed = False\<rparr>);
             m2 = effect (Command ''admin.$cmd'' cmd copts) m1
         in m2\<lparr>inflight := inflight m2 @ [PendingCommand now isAwaitable]\<rparr>)
      else
        (let m2 = effect ConnectCall m1
         in m2\<lparr>inflight := inflight m2 @ [PendingConnect now]\<rparr>))"

text \<open>The callback of \<open>Connection.command\<close>, for a round started at \<open>start\<close>.\<close>

definition command_callback ::
    "real \<Rightarrow> real \<Rightarrow> bool \<Rightarrow> error + isMaster \<Rightarrow> monitor \<Rightarrow> monitor" where
  "command_callback now start isAwaitable reply m =
     (case reply of
        Inl err \<Rightarrow> failureHandler now start err m
      | Inr im \<Rightarrow>
          (let m1 = emit (ServerHeartbeatSucceeded (calculateDurationInMs now (Some start)) im
                      (address m)) m
           in if isAwaitable then emit (ServerHeartbeatStarted (address m1)) m1
              else monitorServer_callback now None (Some im) m1))"

text \<open>The callback of \<open>connect\<close>, for a round started at \<open>start\<close>.\<close>

definition connect_callback ::
    "real \<Rightarrow> real \<Rightarrow> error + connection \<Rightarrow> monitor \<Rightarrow> monitor" where
  "connect_callback now start reply m =
     (case reply of
        Inl err \<Rightarrow>
          (let m1 = m\<lparr>kConnection := None\<rparr>;
               m2 = (if \<not> instanceofMongoNetworkError err then emit Ev_resetConnectionPool m1
                     else m1)
           in failureHandler now start err m2)
      | Inr conn \<Rightarrow>
          (let m1 = m\<lparr>kConnection := Some conn\<rparr>;
               m2 = emit (ServerHeartbeatSucceeded (calculateDurationInMs now (Some start))
                      (ismaster conn) (address m1)) m1
           in monitorServer_callback now None (Some (ismaster conn)) m2))"

definition monitorServer :: "real \<Rightarrow> monitor \<Rightarrow> monitor" where
  "monitorServer now m =
     (let m1 = stateTransition STATE_MONITORING m;
          m2 = m1\<lparr>nextTicks := nextTicks m1 @ [Ev_monitoring]\<rparr>
      in checkServer now m2)"

subsection \<open>The public operations\<close>

definition connect :: "real \<Rightarrow> monitor \<Rightarrow> monitor" where
  "connect now m = (if s_state m \<noteq> STATE_CLOSED then m else monitorServer now m)"

definition requestCheck :: "real \<Rightarrow> monitor \<Rightarrow> monitor" where
  "requestCheck now m =
     (if s_state m \<in> set INVALID_REQUEST_CHECK_STATES then m
      else
        let remainingTime = heartbeatFrequencyMS (options m)
              - calculateDurationInMs now (kLastCheckTime m)
        in if remainingTime > minHeartbeatFrequencyMS (options m) \<and> kMonitorId m \<noteq> None
           then rescheduleMonitoring now (Some (minHeartbeatFrequencyMS (options m)))
                  (clearTimeout (kMonitorId m) m)
           else monitorServer now (clearTimeout (kMonitorId m) m))"

definition reset :: "monitor \<Rightarrow> monitor" where
  "reset m =
     (if s_state m = STATE_CLOSED \<or> s_state m = STATE_CLOSING then m
      else
        let m1 = stateTransition STATE_CLOSING m;
            m2 = effect Cancel m1;
            m3 = (if kMonitorId m2 \<noteq> None then clearTimeout (kMonitorId m2) m2 else m2);
            m4 = (if kConnection m3 \<noteq> None then effect (Destroy True) m3 else m3);
            m5 = stateTransition STATE_IDLE m4
        in setTimeout CB_requestCheck (Some (heartbeatFrequencyMS (options m5))) m5)"

definition close :: "monitor \<Rightarrow> monitor" where
  "close m =
     (if s_state m = STATE_CLOSED \<or> s_state m = STATE_CLOSING then m
      else
        let m1 = stateTransition STATE_CLOSING m;
            m2 = effect Cancel m1;
            m3 = (if kMonitorId m2 \<noteq> None then clearTimeout (kMonitorId m2) m2 else m2);
            m4 = (if kConnection m3 \<noteq> None then effect (Destroy True) m3 else m3);
            m5 = emit Ev_close m4
        in stateTransition STATE_CLOSED m5)"

subsection \<open>The environment\<close>

text \<open>
  Between two operations the runtime may fire an armed timer, run a queued
  \<open>process.nextTick\<close> callback, or complete input and output in flight; the topology may
  replace the server description. Their order and timing are the environment's.
\<close>

definition timerFires :: "real \<Rightarrow> nat \<Rightarrow> monitor \<Rightarrow> monitor" where
  "timerFires now h m =
     (case find (\<lambda>t. handle t = h) (timers m) of
        None \<Rightarrow> m
      | Some t \<Rightarrow>
          (let m1 = m\<lparr>timers := filter (\<lambda>t. handle t \<noteq> h) (timers m)\<rparr>
           in case callback t of
                CB_requestCheck \<Rightarrow> requestCheck now m1
              | CB_forget_requestCheck \<Rightarrow> requestCheck now (m1\<lparr>kMonitorId := None\<rparr>)))"

definition runNextTick :: "monitor \<Rightarrow> monitor" where
  "runNextTick m =
     (case nextTicks m of
        [] \<Rightarrow> m
      | e # es \<Rightarrow> emit e (m\<lparr>nextTicks := es\<rparr>))"

datatype ioReply = CommandReply "error + isMaster" | ConnectReply "error + connection"

fun dropAt :: "nat \<Rightarrow> 'a list \<Rightarrow> 'a list" where
  "dropAt i xs = take i xs @ drop (Suc i) xs"

text \<open>
  The \<open>i\<close>-th entry in flight gets its reply. A reply streamed to an awaitable command
  leaves the command in flight, its \<open>start\<close> stamped anew; every other reply ends the
  entry. A reply of the wrong kind, or for no entry, is not something the runtime delivers.
\<close>

definition ioCompletes :: "real \<Rightarrow> nat \<Rightarrow> ioReply \<Rightarrow> monitor \<Rightarrow> monitor" where
  "ioCompletes now i reply m =
     (if i < length (inflight m) then
        (case (inflight m ! i, reply) of
           (PendingCommand start isAwaitable, CommandReply r) \<Rightarrow>
             (let m1 = (if isAwaitable \<and> \<not> isl r
                        then m\<lparr>inflight := (inflight m)[i := PendingCommand now True]\<rparr>
                        else m\<lparr>inflight := dropAt i (inflight m)\<rparr>)
              in command_callback now start isAwaitable r m1)
         | (PendingConnect start, ConnectReply r) \<Rightarrow>
             connect_callback now start r (m\<lparr>inflight := dropAt i (inflight m)\<rparr>)
         | other \<Rightarrow> m)
      else m)"

datatype action =
    A_connect
  | A_requestCheck
  | A_reset
  | A_close
  | A_timerFires nat
  | A_nextTick
  | A_ioCompletes nat ioReply
  | A_description serverDescription

fun step :: "real \<times> action \<Rightarrow> monitor \<Rightarrow> monitor" where
  "step (now, A_connect) m = connect now m"
| "step (now, A_requestCheck) m = requestCheck now m"
| "step (now, A_reset) m = reset m"
| "step (now, A_close) m = close m"
| "step (now, A_timerFires h) m = timerFires now h m"
| "step (now, A_nextTick) m = runNextTick m"
| "step (now, A_ioCompletes i r) m = ioCompletes now i r m"
| "step (now, A_description d) m = m\<lparr>kServer := d\<rparr>"

fun run :: "(real \<times> action) list \<Rightarrow> monitor \<Rightarrow> monitor" where
  "run [] m = m"
| "run (a # as) m = run as (step a m)"

subsection \<open>Invariants of the scheduler\<close>

text \<open>
  Every armed timer is the one whose handle the monitor holds: no timer, or one timer and
  \<open>kMonitorId\<close> is its handle.
\<close>

definition timer_inv :: "monitor \<Rightarrow> bool" where
  "timer_inv m =
     (case timers m of
        [] \<Rightarrow> True
      | [t] \<Rightarrow> kMonitorId m = Some (handle t)
      | t # u # ts \<Rightarrow> False)"

text \<open>
  One entry is in flight while the state is \<open>STATE_MONITORING\<close>, none otherwise. It holds
  as long as \<open>reset\<close> and \<open>close\<close> are not called in state \<open>STATE_MONITORING\<close>.
\<close>

definition round_inv :: "monitor \<Rightarrow> bool" where
  "round_inv m =
     (if s_state m = STATE_MONITORING then length (inflight m) = 1 else inflight m = [])"

fun interrupts :: "action \<Rightarrow> bool" where
  "interrupts A_reset = True"
| "interrupts A_close = True"
| "interrupts a = False"

text \<open>
  A run in which \<open>reset\<close> and \<open>close\<close> are never called while a round is in flight,
  that is, in state \<open>STATE_MONITORING\<close>.
\<close>

fun uninterrupted :: "(real \<times> action) list \<Rightarrow> monitor \<Rightarrow> bool" where
  "uninterrupted [] m = True"
| "uninterrupted (a # as) m =
     (if interrupts (snd a) \<and> s_state m = STATE_MONITORING then False
      else uninterrupted as (step a m))"

subsection \<open>Sample values\<close>

definition sampleServer :: serverDescription where
  "sampleServer = \<lparr>sd_type = Unknown, sd_topologyVersion = None\<rparr>"

definition primaryServer :: serverDescription where
  "primaryServer = \<lparr>sd_type = Primary, sd_topologyVersion = None\<rparr>"

definition streamingServer :: serverDescription where
  "streamingServer =
     \<lparr>sd_type = Primary, sd_topologyVersion = Some \<lparr>processId = 7, counter = 3\<rparr>\<rparr>"

definition defaultOptions :: rawOptions where
  "defaultOptions = \<lparr>raw_connectionTimeout = None, raw_connectTimeoutMS = None,
     raw_heartbeatFrequencyMS = None, raw_minHeartbeatFrequencyMS = None\<rparr>"

definition sampleMonitor :: monitor where
  "sampleMonitor = Monitor ''db1:27017'' sampleServer defaultOptions"

definition sampleConnection :: connection where
  "sampleConnection = \<lparr>conn_id = 1, ismaster = \<lparr>im_topologyVersion = None\<rparr>\<rparr>"

text \<open>
  A monitor after its first round: connected, idle, the timer for the next round armed;
  the same monitor once that timer has fired and a command is in flight, the server by then
  known as a primary; and the idle monitor after a \<open>requestCheck\<close> that moved the timer.
\<close>

definition idleMonitor :: monitor where
  "idleMonitor =
     run [(0, A_connect), (5, A_ioCompletes 0 (ConnectReply (Inr sampleConnection)))]
       sampleMonitor"

definition monitoringMonitor :: monitor where
  "monitoringMonitor =
     run [(6, A_description primaryServer), (10005, A_timerFires 0)] idleMonitor"

definition rescheduledMonitor :: monitor where
  "rescheduledMonitor = run [(105, A_requestCheck)] idleMonitor"

text \<open>
  A monitor whose first connection attempt is still in flight after a \<open>reset\<close>, while a
  second attempt, started by \<open>requestCheck\<close>, has already given it a connection.
\<close>

definition twoAttemptsMonitor :: monitor where
  "twoAttemptsMonitor =
     run [(0, A_connect), (10, A_reset), (10000, A_requestCheck),
          (10020, A_ioCompletes 1 (ConnectReply (Inr sampleConnection)))] sampleMonitor"

section \<open>Properties\<close>

lemmas mode_defs = PRIMARY_def PRIMARY_PREFERRED_def SECONDARY_def SECONDARY_PREFERRED_def
  NEAREST_def

lemmas sample_defs = sampleServer_def primaryServer_def streamingServer_def defaultOptions_def
  sampleMonitor_def sampleConnection_def idleMonitor_def monitoringMonitor_def
  rescheduledMonitor_def

lemmas monitor_defs = Monitor_def stateTransition_def emit_def effect_def setTimeout_def
  rescheduleMonitoring_def monitorServer_callback_def failureHandler_def checkServer_def
  command_callback_def connect_callback_def monitorServer_def connect_def requestCheck_def
  reset_def close_def timerFires_def runNextTick_def ioCompletes_def
  INVALID_REQUEST_CHECK_STATES_def makeTopologyVersion_def Let_def

subsection \<open>Read preference: helper lemmas\<close>


lemma isValid_iff:
  "isValid md \<longleftrightarrow> md \<in> {ModeString ''primary'', ModeString ''primaryPreferred'',
     ModeString ''secondary'', ModeString ''secondaryPreferred'', ModeString ''nearest'', ModeNull}"
  by (simp add: isValid_def VALID_MODES_def mode_defs)

lemma primaryChecks_throws:
  "(\<exists>e. primaryChecks rp = Inl e) \<longleftrightarrow>
     mode rp = ModeString ''primary'' \<and>
       (nonEmptyArray (tags rp) \<or> truthyNumber (maxStalenessSeconds rp) \<or> hedge rp \<noteq> None)"
  by (auto simp: primaryChecks_def PRIMARY_def)

lemma nonEmptyArray_iff: "nonEmptyArray tgs \<longleftrightarrow> (\<exists>t ts. tgs = TagsArray (t # ts))"
  by (cases tgs) (auto simp: neq_Nil_conv)

lemma leqZero_iff: "leqZero v \<longleftrightarrow> (\<exists>r. v = Num r \<and> r \<le> 0) \<or> v = MinusInfinity"
  by (cases v) auto

lemma stale_or_truthy: "leqZero v \<or> truthyNumber (Some v) \<longleftrightarrow> v \<noteq> NaN"
  by (cases v) auto

text \<open>Past the mode check and the check of the tags: what is left to throw.\<close>

lemma ReadPreference_rest:
  assumes "isValid md" "normalizeArgs tgs opts = Inr (tgs', options')"
  shows "(\<exists>e. ReadPreference md tgs opts = Inl e) \<longleftrightarrow>
     (\<exists>v. maxStalenessOf options' = Some v \<and> leqZero v)
     \<or> (md = ModeString ''primary'' \<and>
          (nonEmptyArray tgs' \<or> (\<exists>v. maxStalenessOf options' = Some v \<and> v \<noteq> NaN)
             \<or> hedgeOf options' \<noteq> None))"
proof (cases "maxStalenessOf options'")
  case None
  then show ?thesis using assms
    by (simp add: ReadPreference_def primaryChecks_throws)
next
  case (Some v)
  show ?thesis
  proof (cases "leqZero v")
    case True
    then show ?thesis using assms Some by (auto simp: ReadPreference_def)
  next
    case False
    then have "truthyNumber (Some v) \<longleftrightarrow> v \<noteq> NaN" using stale_or_truthy [of v] by simp
    then show ?thesis using assms Some False
      by (simp add: ReadPreference_def primaryChecks_throws)
  qed
qed

lemma normalizeArgs_cases:
  "normalizeArgs tgs opts =
     (if tgs = TagsOther True \<or> (\<exists>ob. tgs = TagsObject ob \<and> opts \<noteq> OptionsUndefined)
      then Inl TagsMustBeArray
      else if opts = OptionsUndefined \<and> tgs = TagsNull then Inr (TagsUndefined, OptionsNull)
      else if opts = OptionsUndefined \<and> (\<exists>ob. tgs = TagsObject ob)
        then Inr (TagsUndefined, asOptions tgs)
      else Inr (tgs, opts))"
  by (cases tgs) (simp_all add: normalizeArgs_def)

lemma ReadPreference_valid_throws_iff:
  assumes valid: "isValid md"
  shows "(\<exists>e. ReadPreference md tgs opts = Inl e) \<longleftrightarrow>
     (tgs = TagsOther True
      \<or> (\<exists>ob. tgs = TagsObject ob \<and> opts \<noteq> OptionsUndefined)
      \<or> (\<exists>ob. (opts = OptionsObject ob \<or> (opts = OptionsUndefined \<and> tgs = TagsObject ob)) \<and>
            ((\<exists>r. opt_maxStalenessSeconds ob = Some (Num r) \<and> r \<le> 0)
             \<or> opt_maxStalenessSeconds ob = Some MinusInfinity
             \<or> (md = ModeString ''primary'' \<and>
                  ((\<exists>v. opt_maxStalenessSeconds ob = Some v \<and> v \<noteq> NaN)
                     \<or> opt_hedge ob \<noteq> None))))
      \<or> (md = ModeString ''primary'' \<and> (\<exists>t ts. tgs = TagsArray (t # ts))))"
  (is "?L \<longleftrightarrow> ?R")
proof -
  consider
      (refused) "tgs = TagsOther True \<or> (\<exists>ob. tgs = TagsObject ob \<and> opts \<noteq> OptionsUndefined)"
    | (null) "opts = OptionsUndefined" "tgs = TagsNull"
    | (second) ob where "opts = OptionsUndefined" "tgs = TagsObject ob"
    | (plain) "tgs \<noteq> TagsOther True" "\<forall>ob. tgs \<noteq> TagsObject ob"
        "opts = OptionsUndefined \<longrightarrow> tgs \<noteq> TagsNull"
    by (cases tgs) auto
  then show ?thesis
  proof cases
    case refused
    then have "normalizeArgs tgs opts = Inl TagsMustBeArray"
      by (simp add: normalizeArgs_cases)
    then have "ReadPreference md tgs opts = Inl TagsMustBeArray"
      using valid by (simp add: ReadPreference_def)
    then have ?L by blast
    moreover have ?R using refused by blast
    ultimately show ?thesis by blast
  next
    case null
    then have n: "normalizeArgs tgs opts = Inr (TagsUndefined, OptionsNull)"
      by (simp add: normalizeArgs_cases)
    have "?L \<longleftrightarrow> False"
      using ReadPreference_rest [OF valid n] by simp
    moreover have "?R \<longleftrightarrow> False" using null by simp
    ultimately show ?thesis by blast
  next
    case second
    then have n: "normalizeArgs tgs opts = Inr (TagsUndefined, OptionsObject ob)"
      by (simp add: normalizeArgs_cases)
    have "?L \<longleftrightarrow>
       (\<exists>v. opt_maxStalenessSeconds ob = Some v \<and> leqZero v)
       \<or> (md = ModeString ''primary'' \<and>
            ((\<exists>v. opt_maxStalenessSeconds ob = Some v \<and> v \<noteq> NaN) \<or> opt_hedge ob \<noteq> None))"
      using ReadPreference_rest [OF valid n] by simp
    moreover have "?R \<longleftrightarrow>
       (\<exists>v. opt_maxStalenessSeconds ob = Some v \<and> leqZero v)
       \<or> (md = ModeString ''primary'' \<and>
            ((\<exists>v. opt_maxStalenessSeconds ob = Some v \<and> v \<noteq> NaN) \<or> opt_hedge ob \<noteq> None))"
      using second by (auto simp: leqZero_iff)
    ultimately show ?thesis by blast
  next
    case plain
    then have n: "normalizeArgs tgs opts = Inr (tgs, opts)"
      by (auto simp: normalizeArgs_cases)
    have l: "?L \<longleftrightarrow>
       (\<exists>v. maxStalenessOf opts = Some v \<and> leqZero v)
       \<or> (md = ModeString ''primary'' \<and>
            (nonEmptyArray tgs \<or> (\<exists>v. maxStalenessOf opts = Some v \<and> v \<noteq> NaN)
               \<or> hedgeOf opts \<noteq> None))"
      using ReadPreference_rest [OF valid n] by simp
    show ?thesis
    proof (cases opts)
      case OptionsUndefined
      then show ?thesis using l plain by (simp add: nonEmptyArray_iff)
    next
      case OptionsNull
      then show ?thesis using l plain by (simp add: nonEmptyArray_iff)
    next
      case (OptionsObject ob)
      then show ?thesis using l plain by (auto simp: nonEmptyArray_iff leqZero_iff)
    qed
  qed
qed

lemma ReadPreference_throws_iff:
  "(\<exists>e. ReadPreference md tgs opts = Inl e) \<longleftrightarrow>
     (md \<notin> {ModeString ''primary'', ModeString ''primaryPreferred'', ModeString ''secondary'',
             ModeString ''secondaryPreferred'', ModeString ''nearest'', ModeNull}
      \<or> tgs = TagsOther True
      \<or> (\<exists>ob. tgs = TagsObject ob \<and> opts \<noteq> OptionsUndefined)
      \<or> (\<exists>ob. (opts = OptionsObject ob \<or> (opts = OptionsUndefined \<and> tgs = TagsObject ob)) \<and>
            ((\<exists>r. opt_maxStalenessSeconds ob = Some (Num r) \<and> r \<le> 0)
             \<or> opt_maxStalenessSeconds ob = Some MinusInfinity
             \<or> (md = ModeString ''primary'' \<and>
                  ((\<exists>v. opt_maxStalenessSeconds ob = Some v \<and> v \<noteq> NaN)
                     \<or> opt_hedge ob \<noteq> None))))
      \<or> (md = ModeString ''primary'' \<and> (\<exists>t ts. tgs = TagsArray (t # ts))))"
proof (cases "isValid md")
  case False
  then have "ReadPreference md tgs opts = Inl InvalidMode"
    by (simp add: ReadPreference_def)
  moreover have "md \<notin> {ModeString ''primary'', ModeString ''primaryPreferred'',
      ModeString ''secondary'', ModeString ''secondaryPreferred'', ModeString ''nearest'', ModeNull}"
    using False by (simp only: isValid_iff not_False_eq_True)
  ultimately show ?thesis by blast
next
  case True
  then have "\<not> md \<notin> {ModeString ''primary'', ModeString ''primaryPreferred'',
      ModeString ''secondary'', ModeString ''secondaryPreferred'', ModeString ''nearest'', ModeNull}"
    by (simp only: isValid_iff not_not)
  then show ?thesis
    unfolding ReadPreference_valid_throws_iff [OF True] by (simp only: simp_thms)
qed

lemma ReadPreference_secondary_tags:
  "ReadPreference (ModeString ''secondary'') (TagsArray ts) OptionsUndefined =
     Inr \<lparr>mode = ModeString ''secondary'', tags = TagsArray ts, hedge = None,
          maxStalenessSeconds = None, minWireVersion = None\<rparr>"
  by (simp add: ReadPreference_def isValid_def VALID_MODES_def normalizeArgs_def
      primaryChecks_def mode_defs)

subsection \<open>Read preference\<close>

text \<open>
  Claim C8, as the constructor has it, on its three arguments. Construction throws exactly
  when: the mode is none of the five mode strings and is not \<open>null\<close> either (\<open>null\<close> is
  an entry of \<open>VALID_MODES\<close>); or the second argument is a truthy value that is no object
  (a string, say); or it is a non-array object and a third argument is given; or the
  options object (the third argument, or a non-array object in second position with no
  third argument) has a \<open>maxStalenessSeconds\<close> that is at most 0; or the mode is
  \<open>primary\<close> and the options object has a \<open>maxStalenessSeconds\<close> other than \<open>NaN\<close>
  or has a \<open>hedge\<close>; or the mode is \<open>primary\<close> and the tags are a non-empty array. With
  mode \<open>secondary\<close> and an array of tags construction succeeds.
\<close>

theorem ReadPreference_throws_exactly_when:
  "((\<exists>e. ReadPreference md tgs opts = Inl e) \<longleftrightarrow>
     (md \<notin> {ModeString ''primary'', ModeString ''primaryPreferred'', ModeString ''secondary'',
             ModeString ''secondaryPreferred'', ModeString ''nearest'', ModeNull}
      \<or> tgs = TagsOther True
      \<or> (\<exists>ob. tgs = TagsObject ob \<and> opts \<noteq> OptionsUndefined)
      \<or> (\<exists>ob. (opts = OptionsObject ob \<or> (opts = OptionsUndefined \<and> tgs = TagsObject ob)) \<and>
            ((\<exists>r. opt_maxStalenessSeconds ob = Some (Num r) \<and> r \<le> 0)
             \<or> opt_maxStalenessSeconds ob = Some MinusInfinity
             \<or> (md = ModeString ''primary'' \<and>
                  ((\<exists>v. opt_maxStalenessSeconds ob = Some v \<and> v \<noteq> NaN)
                     \<or> opt_hedge ob \<noteq> None))))
      \<or> (md = ModeString ''primary'' \<and> (\<exists>t ts. tgs = TagsArray (t # ts)))))
   \<and> ReadPreference (ModeString ''secondary'') (TagsArray ts) OptionsUndefined =
       Inr \<lparr>mode = ModeString ''secondary'', tags = TagsArray ts, hedge = None,
            maxStalenessSeconds = None, minWireVersion = None\<rparr>"
  using ReadPreference_throws_iff [of md tgs opts] ReadPreference_secondary_tags [of ts]
  by (rule conjI)

text \<open>
  The theorem at five inputs: \<open>primary\<close> with a tag set throws, a staleness of 0 throws,
  a staleness of 90 does not, \<open>primary\<close> with a staleness of 90 throws and \<open>primary\<close>
  with a staleness of \<open>NaN\<close> does not.
\<close>

theorem ReadPreference_throws_exactly_when_witness:
  "(\<exists>e. ReadPreference (ModeString ''primary'') (TagsArray [[(''dc'', ''ny'')]]) OptionsUndefined
        = Inl e)
   \<and> (\<exists>e. ReadPreference (ModeString ''nearest'') TagsUndefined
        (OptionsObject \<lparr>opt_maxStalenessSeconds = Some (Num 0), opt_hedge = None\<rparr>) = Inl e)
   \<and> \<not> (\<exists>e. ReadPreference (ModeString ''nearest'') TagsUndefined
        (OptionsObject \<lparr>opt_maxStalenessSeconds = Some (Num 90), opt_hedge = None\<rparr>) = Inl e)
   \<and> (\<exists>e. ReadPreference (ModeString ''primary'') TagsUndefined
        (OptionsObject \<lparr>opt_maxStalenessSeconds = Some (Num 90), opt_hedge = None\<rparr>) = Inl e)
   \<and> \<not> (\<exists>e. ReadPreference (ModeString ''primary'') TagsUndefined
        (OptionsObject \<lparr>opt_maxStalenessSeconds = Some NaN, opt_hedge = None\<rparr>) = Inl e)"
  using
    ReadPreference_throws_exactly_when [of "ModeString ''primary''"
      "TagsArray [[(''dc'', ''ny'')]]" OptionsUndefined "[]"]
    ReadPreference_throws_exactly_when [of "ModeString ''nearest''" TagsUndefined
      "OptionsObject \<lparr>opt_maxStalenessSeconds = Some (Num 0), opt_hedge = None\<rparr>" "[]"]
    ReadPreference_throws_exactly_when [of "ModeString ''nearest''" TagsUndefined
      "OptionsObject \<lparr>opt_maxStalenessSeconds = Some (Num 90), opt_hedge = None\<rparr>" "[]"]
    ReadPreference_throws_exactly_when [of "ModeString ''primary''" TagsUndefined
      "OptionsObject \<lparr>opt_maxStalenessSeconds = Some (Num 90), opt_hedge = None\<rparr>" "[]"]
    ReadPreference_throws_exactly_when [of "ModeString ''primary''" TagsUndefined
      "OptionsObject \<lparr>opt_maxStalenessSeconds = Some NaN, opt_hedge = None\<rparr>" "[]"]
  by simp

text \<open>
  Claim C8 as stated fails in both directions: the mode \<open>null\<close> is none of the five
  mode strings and construction succeeds; with mode \<open>primary\<close> a \<open>maxStalenessSeconds\<close>
  of \<open>NaN\<close> is present and construction succeeds; and with mode \<open>secondary\<close> a string in
  the tags position throws although none of the listed conditions holds.
\<close>

theorem ReadPreference_throws_counterexample:
  "ModeNull \<notin> set (map ModeString [PRIMARY, PRIMARY_PREFERRED, SECONDARY, SECONDARY_PREFERRED,
       NEAREST])
   \<and> ReadPreference ModeNull TagsUndefined OptionsUndefined =
       Inr \<lparr>mode = ModeNull, tags = TagsUndefined, hedge = None, maxStalenessSeconds = None,
            minWireVersion = None\<rparr>
   \<and> ReadPreference (ModeString SECONDARY) (TagsOther True) OptionsUndefined =
       Inl TagsMustBeArray
   \<and> ReadPreference (ModeString PRIMARY) TagsUndefined
        (OptionsObject \<lparr>opt_maxStalenessSeconds = Some NaN, opt_hedge = None\<rparr>) =
       Inr \<lparr>mode = ModeString PRIMARY, tags = TagsUndefined, hedge = None,
            maxStalenessSeconds = Some NaN, minWireVersion = Some 5\<rparr>"
  by (simp add: ReadPreference_def isValid_def VALID_MODES_def normalizeArgs_def
      primaryChecks_def mode_defs)

text \<open>
  Claim C9. \<open>a.equals(b)\<close> is true exactly when the two modes are equal; tags,
  \<open>maxStalenessSeconds\<close>, \<open>hedge\<close> and \<open>minWireVersion\<close> play no role, and two
  instances built with mode \<open>secondaryPreferred\<close> and any two tag arrays are equal.
\<close>

theorem equals_mode_only:
  "equals a b = (mode a = mode b)
   \<and> equals (a\<lparr>tags := t, hedge := h, maxStalenessSeconds := s, minWireVersion := w\<rparr>) b
       = equals a b
   \<and> (\<exists>x y. ReadPreference (ModeString SECONDARY_PREFERRED) (TagsArray ts1) OptionsUndefined = Inr x
        \<and> ReadPreference (ModeString SECONDARY_PREFERRED) (TagsArray ts2) OptionsUndefined = Inr y
        \<and> equals x y)"
  by (auto simp: equals_def ReadPreference_def isValid_def VALID_MODES_def normalizeArgs_def
      primaryChecks_def mode_defs)

lemma ReadPreference_object_as_options:
  "ReadPreference md (TagsObject ob) OptionsUndefined
     = ReadPreference md TagsUndefined (OptionsObject ob)"
  by (simp add: ReadPreference_def normalizeArgs_def)

lemma primaryChecks_Inr: "primaryChecks rp = Inr rp' \<Longrightarrow> rp' = rp"
  by (auto simp: primaryChecks_def split: if_splits)

lemma ReadPreference_object_fields:
  assumes "ReadPreference md (TagsObject ob) OptionsUndefined = Inr rp"
  shows "tags rp = TagsUndefined \<and> hedge rp = opt_hedge ob
     \<and> maxStalenessSeconds rp = opt_maxStalenessSeconds ob"
  using assms
  by (auto simp: ReadPreference_def normalizeArgs_def
      split: if_splits option.splits dest!: primaryChecks_Inr)

lemma ReadPreference_tags_must_be_array:
  assumes "isValid md" "truthy tgs" "\<not> isArray tgs" "opts \<noteq> OptionsUndefined"
  shows "ReadPreference md tgs opts = Inl TagsMustBeArray"
  using assms by (simp add: ReadPreference_def normalizeArgs_def)

text \<open>
  Claim C10, as the constructor has it. A non-array object in second position with no third
  argument is read as the options object: the call is the same as the one with undefined
  tags and that object as options, so on success the tags are undefined and the object's
  \<open>hedge\<close> and \<open>maxStalenessSeconds\<close> are the instance's. When the mode is valid, a
  truthy second argument that is not an array, with a third argument present, throws the
  "tags must be an array" error.
\<close>

theorem options_in_second_position:
  "ReadPreference md (TagsObject ob) OptionsUndefined
     = ReadPreference md TagsUndefined (OptionsObject ob)
   \<and> (ReadPreference md (TagsObject ob) OptionsUndefined = Inr rp \<longrightarrow>
        tags rp = TagsUndefined \<and> hedge rp = opt_hedge ob
          \<and> maxStalenessSeconds rp = opt_maxStalenessSeconds ob)
   \<and> (isValid md \<and> truthy tgs \<and> \<not> isArray tgs \<and> opts \<noteq> OptionsUndefined \<longrightarrow>
        ReadPreference md tgs opts = Inl TagsMustBeArray)"
  using ReadPreference_object_as_options ReadPreference_object_fields
    ReadPreference_tags_must_be_array
  by blast

text \<open>The theorem at mode \<open>secondary\<close>, with an options object and with a string as tags.\<close>

theorem options_in_second_position_witness:
  "ReadPreference (ModeString SECONDARY)
       (TagsObject \<lparr>opt_maxStalenessSeconds = Some (Num 90), opt_hedge = Some \<lparr>enabled = Some True\<rparr>\<rparr>)
       OptionsUndefined
     = Inr \<lparr>mode = ModeString SECONDARY, tags = TagsUndefined,
            hedge = Some \<lparr>enabled = Some True\<rparr>, maxStalenessSeconds = Some (Num 90),
            minWireVersion = Some 5\<rparr>
   \<and> isValid (ModeString SECONDARY) \<and> truthy (TagsOther True) \<and> \<not> isArray (TagsOther True)
   \<and> OptionsNull \<noteq> OptionsUndefined
   \<and> ReadPreference (ModeString SECONDARY) (TagsOther True) OptionsNull = Inl TagsMustBeArray"
proof -
  let ?ob = "\<lparr>opt_maxStalenessSeconds = Some (Num 90), opt_hedge = Some \<lparr>enabled = Some True\<rparr>\<rparr>"
  have v: "isValid (ModeString SECONDARY)"
    by (simp add: isValid_def VALID_MODES_def)
  have r: "ReadPreference (ModeString SECONDARY) TagsUndefined (OptionsObject ?ob)
     = Inr \<lparr>mode = ModeString SECONDARY, tags = TagsUndefined,
            hedge = Some \<lparr>enabled = Some True\<rparr>, maxStalenessSeconds = Some (Num 90),
            minWireVersion = Some 5\<rparr>"
    by (simp add: ReadPreference_def isValid_def VALID_MODES_def normalizeArgs_def
        primaryChecks_def mode_defs)
  show ?thesis
    using options_in_second_position [of "ModeString SECONDARY" ?ob _ "TagsOther True" OptionsNull]
      v r
    by simp
qed

text \<open>
  Claim C10 as stated fails where the mode is invalid: the mode check comes first, and the
  error thrown is the invalid-mode error, not the one about tags.
\<close>

theorem options_in_second_position_counterexample:
  "truthy (TagsOther True) \<and> \<not> isArray (TagsOther True) \<and> \<not> typeofObject (TagsOther True)
   \<and> OptionsObject \<lparr>opt_maxStalenessSeconds = None, opt_hedge = None\<rparr> \<noteq> OptionsUndefined
   \<and> ReadPreference (ModeString ''primry'') (TagsOther True)
        (OptionsObject \<lparr>opt_maxStalenessSeconds = None, opt_hedge = None\<rparr>) = Inl InvalidMode
   \<and> Inl InvalidMode \<noteq> (Inl TagsMustBeArray :: typeError + readPreference)"
  by (simp add: ReadPreference_def isValid_def VALID_MODES_def mode_defs)

subsection \<open>Monitor: the timer and round invariants\<close>


lemma clearTimeout_eq:
  "clearTimeout h m = m\<lparr>timers := filter (\<lambda>t. Some (handle t) \<noteq> h) (timers m)\<rparr>"
  by (cases h) simp_all

lemma timer_inv_cases:
  "timer_inv m \<longleftrightarrow> timers m = [] \<or> (\<exists>t. timers m = [t] \<and> kMonitorId m = Some (handle t))"
  by (auto simp: timer_inv_def split: list.splits)

lemma timer_inv_requestCheck: "timer_inv m \<Longrightarrow> timer_inv (requestCheck now m)"
  unfolding timer_inv_cases
  by (auto simp: monitor_defs clearTimeout_eq)

lemma timer_inv_reset: "timer_inv m \<Longrightarrow> timer_inv (reset m)"
  unfolding timer_inv_cases
  by (auto simp: monitor_defs clearTimeout_eq)

lemma timer_inv_close: "timer_inv m \<Longrightarrow> timer_inv (close m)"
  unfolding timer_inv_cases
  by (auto simp: monitor_defs clearTimeout_eq)

lemma timer_inv_connect: "timer_inv m \<Longrightarrow> timer_inv (connect now m)"
  unfolding timer_inv_cases
  by (auto simp: monitor_defs clearTimeout_eq)

lemma timer_inv_frame:
  "timers m' = timers m \<Longrightarrow> kMonitorId m' = kMonitorId m \<Longrightarrow> timer_inv m' = timer_inv m"
  by (simp add: timer_inv_cases)

lemma timer_inv_timerFires: "timer_inv m \<Longrightarrow> timer_inv (timerFires now h m)"
proof -
  assume inv: "timer_inv m"
  show ?thesis
  proof (cases "find (\<lambda>t. handle t = h) (timers m)")
    case None
    then show ?thesis using inv by (simp add: timerFires_def)
  next
    case (Some t)
    from inv Some have tm: "timers m = [t]" "handle t = h"
      by (auto simp: timer_inv_cases split: if_splits)
    have a: "timer_inv (m\<lparr>timers := []\<rparr>)" "timer_inv (m\<lparr>timers := [], kMonitorId := None\<rparr>)"
      by (simp_all add: timer_inv_cases)
    show ?thesis
      using Some tm a timer_inv_requestCheck
      by (cases "callback t") (simp_all add: timerFires_def Let_def)
  qed
qed

lemma timer_inv_runNextTick: "timer_inv m \<Longrightarrow> timer_inv (runNextTick m)"
  by (simp add: runNextTick_def emit_def timer_inv_cases split: list.splits)

lemma timer_inv_rescheduleMonitoring:
  "timer_inv m \<Longrightarrow> timer_inv (rescheduleMonitoring now ms m)"
  unfolding timer_inv_cases
  by (auto simp: monitor_defs clearTimeout_eq)

lemma timer_inv_monitorServer_callback:
  "timer_inv m \<Longrightarrow> timer_inv (monitorServer_callback now err reply m)"
  by (simp add: monitorServer_callback_def timer_inv_rescheduleMonitoring)

lemma timer_inv_command_callback:
  "timer_inv m \<Longrightarrow> timer_inv (command_callback now start aw r m)"
  unfolding timer_inv_cases
  by (cases r) (auto simp: monitor_defs clearTimeout_eq)

lemma timer_inv_connect_callback:
  "timer_inv m \<Longrightarrow> timer_inv (connect_callback now start r m)"
  unfolding timer_inv_cases
  by (cases r) (auto simp: monitor_defs clearTimeout_eq)

lemma timer_inv_inflight_update: "timer_inv (m\<lparr>inflight := xs\<rparr>) = timer_inv m"
  by (simp add: timer_inv_cases)

lemma timer_inv_ioCompletes: "timer_inv m \<Longrightarrow> timer_inv (ioCompletes now i r m)"
  by (simp add: ioCompletes_def Let_def timer_inv_command_callback timer_inv_connect_callback
      timer_inv_inflight_update split: pendingIO.splits ioReply.splits prod.splits)

lemma timer_inv_step: "timer_inv m \<Longrightarrow> timer_inv (step a m)"
proof (cases a)
  case (Pair now act)
  assume inv: "timer_inv m"
  have d: "timer_inv (m\<lparr>kServer := d\<rparr>)" for d
    using inv by (simp add: timer_inv_cases)
  show ?thesis
    using inv Pair d
    by (cases act)
      (simp_all add: timer_inv_connect timer_inv_requestCheck timer_inv_reset timer_inv_close
        timer_inv_timerFires timer_inv_runNextTick timer_inv_ioCompletes)
qed

lemma timer_inv_run: "timer_inv m \<Longrightarrow> timer_inv (run acts m)"
  by (induction acts arbitrary: m) (simp_all add: timer_inv_step)

lemma timer_inv_Monitor: "timer_inv (Monitor addr d opts)"
  by (simp add: timer_inv_cases Monitor_def)

lemma timer_inv_length: "timer_inv m \<Longrightarrow> length (timers m) \<le> 1"
  by (auto simp: timer_inv_cases)


lemma round_inv_connect: "round_inv m \<Longrightarrow> round_inv (connect now m)"
  by (auto simp: round_inv_def monitor_defs split: if_splits)

lemma round_inv_requestCheck: "round_inv m \<Longrightarrow> round_inv (requestCheck now m)"
  by (cases "s_state m") (auto simp: round_inv_def monitor_defs clearTimeout_eq split: if_splits)

lemma round_inv_timers_update: "round_inv (m\<lparr>timers := ts, kMonitorId := k\<rparr>) = round_inv m"
  "round_inv (m\<lparr>timers := ts\<rparr>) = round_inv m"  "round_inv (m\<lparr>kServer := d\<rparr>) = round_inv m"
  by (simp_all add: round_inv_def)

lemma round_inv_timerFires: "round_inv m \<Longrightarrow> round_inv (timerFires now h m)"
  by (simp add: timerFires_def Let_def round_inv_requestCheck round_inv_timers_update
      split: option.splits timerCallback.splits)

lemma round_inv_runNextTick: "round_inv m \<Longrightarrow> round_inv (runNextTick m)"
  by (simp add: runNextTick_def emit_def round_inv_def split: list.splits)

lemma round_inv_ioCompletes: "round_inv m \<Longrightarrow> round_inv (ioCompletes now i r m)"
proof -
  assume inv: "round_inv m"
  show ?thesis
  proof (cases "i < length (inflight m)")
    case False
    then show ?thesis using inv by (simp add: ioCompletes_def)
  next
    case True
    with inv obtain p where st: "s_state m = STATE_MONITORING" and fl: "inflight m = [p]" and i0: "i = 0"
      by (cases "inflight m") (auto simp: round_inv_def split: if_splits)
    show ?thesis
    proof (cases p)
      case (PendingCommand start aw)
      show ?thesis
      proof (cases r)
        case (CommandReply cr)
        then show ?thesis using st fl i0 PendingCommand
          by (cases cr) (auto simp: round_inv_def monitor_defs clearTimeout_eq)
      next
        case (ConnectReply cr)
        then show ?thesis using inv fl i0 PendingCommand by (simp add: ioCompletes_def)
      qed
    next
      case (PendingConnect start)
      show ?thesis
      proof (cases r)
        case (CommandReply cr)
        then show ?thesis using inv fl i0 PendingConnect by (simp add: ioCompletes_def)
      next
        case (ConnectReply cr)
        then show ?thesis using st fl i0 PendingConnect
          by (cases cr) (auto simp: round_inv_def monitor_defs clearTimeout_eq)
      qed
    qed
  qed
qed

lemma round_inv_reset:
  "round_inv m \<Longrightarrow> s_state m \<noteq> STATE_MONITORING \<Longrightarrow> round_inv (reset m)"
  by (cases "s_state m")
    (auto simp: round_inv_def reset_def stateTransition_def setTimeout_def effect_def
      clearTimeout_eq Let_def)

lemma round_inv_close:
  "round_inv m \<Longrightarrow> s_state m \<noteq> STATE_MONITORING \<Longrightarrow> round_inv (close m)"
  by (cases "s_state m")
    (auto simp: round_inv_def close_def stateTransition_def emit_def effect_def
      clearTimeout_eq Let_def)

lemma round_inv_step:
  assumes inv: "round_inv m"
    and calm: "\<not> (interrupts (snd a) \<and> s_state m = STATE_MONITORING)"
  shows "round_inv (step a m)"
proof (cases a)
  case (Pair now act)
  show ?thesis
    using inv calm Pair
    by (cases act)
      (simp_all add: round_inv_connect round_inv_requestCheck round_inv_timerFires
        round_inv_runNextTick round_inv_ioCompletes round_inv_timers_update
        round_inv_reset round_inv_close)
qed

lemma round_inv_run: "round_inv m \<Longrightarrow> uninterrupted acts m \<Longrightarrow> round_inv (run acts m)"
proof (induction acts arbitrary: m)
  case Nil
  then show ?case by simp
next
  case (Cons a acts)
  from Cons.prems(2) have calm: "\<not> (interrupts (snd a) \<and> s_state m = STATE_MONITORING)"
    and rest: "uninterrupted acts (step a m)"
    by (simp_all split: if_splits)
  from Cons.prems(1) calm have "round_inv (step a m)" by (rule round_inv_step)
  then show ?case using rest Cons.IH by simp
qed

lemma round_inv_Monitor: "round_inv (Monitor addr d opts)"
  by (simp add: round_inv_def Monitor_def)

lemma round_inv_length: "round_inv m \<Longrightarrow> length (inflight m) \<le> 1"
  by (auto simp: round_inv_def split: if_splits)

subsection \<open>Monitor: scheduling, failure, modes, reset\<close>


lemma rescheduleMonitoring_closed:
  "s_state m = STATE_CLOSING \<or> s_state m = STATE_CLOSED \<Longrightarrow> rescheduleMonitoring now ms m = m"
  by (simp add: rescheduleMonitoring_def)

lemma rescheduleMonitoring_open:
  assumes "s_state m = STATE_IDLE \<or> s_state m = STATE_MONITORING"
  shows "rescheduleMonitoring now ms m =
     m\<lparr>s_state := STATE_IDLE,
       kLastCheckTime := Some now,
       timers := filter (\<lambda>t. Some (handle t) \<noteq> kMonitorId m) (timers m)
          @ [\<lparr>handle = nextTimerId m, callback = CB_forget_requestCheck, delay = ms\<rparr>],
       nextTimerId := Suc (nextTimerId m),
       kMonitorId := Some (nextTimerId m)\<rparr>"
  using assms
  by (auto simp: rescheduleMonitoring_def stateTransition_def setTimeout_def clearTimeout_eq Let_def)

lemma callback_open:
  assumes "s_state m = STATE_IDLE \<or> s_state m = STATE_MONITORING"
  shows "monitorServer_callback now err reply m =
     m\<lparr>s_state := STATE_IDLE,
       kLastCheckTime := Some now,
       timers := filter (\<lambda>t. Some (handle t) \<noteq> kMonitorId m) (timers m)
          @ [\<lparr>handle = nextTimerId m, callback = CB_forget_requestCheck,
              delay = (if err \<noteq> None \<and> sd_type (kServer m) \<noteq> Unknown then None
                       else if (\<exists>im tv. reply = Some im \<and> im_topologyVersion im = Some tv)
                         then None
                       else Some (heartbeatFrequencyMS (options m)))\<rparr>],
       nextTimerId := Suc (nextTimerId m),
       kMonitorId := Some (nextTimerId m)\<rparr>"
  using assms
  by (cases reply)
    (auto simp: monitorServer_callback_def rescheduleMonitoring_open)

lemma callback_closed:
  "s_state m = STATE_CLOSING \<or> s_state m = STATE_CLOSED \<Longrightarrow>
     monitorServer_callback now err reply m = m"
  by (simp add: monitorServer_callback_def rescheduleMonitoring_closed)

lemma failure_delay:
  assumes "s_state m = STATE_IDLE \<or> s_state m = STATE_MONITORING"
  shows "delay (last (timers (failureHandler now start e m))) =
     (if sd_type (kServer m) \<noteq> Unknown then None else Some (heartbeatFrequencyMS (options m)))"
  using assms
  by (auto simp: failureHandler_def Let_def emit_def effect_def callback_open)

lemma command_success_delay:
  assumes "s_state m = STATE_IDLE \<or> s_state m = STATE_MONITORING"
  shows "delay (last (timers (command_callback now start False (Inr im) m))) =
     (if im_topologyVersion im \<noteq> None then None else Some (heartbeatFrequencyMS (options m)))"
  using assms
  by (auto simp: command_callback_def Let_def emit_def callback_open)

lemma connect_success_delay:
  assumes "s_state m = STATE_IDLE \<or> s_state m = STATE_MONITORING"
  shows "delay (last (timers (connect_callback now start (Inr conn) m))) =
     (if im_topologyVersion (ismaster conn) \<noteq> None then None
      else Some (heartbeatFrequencyMS (options m)))"
  using assms
  by (auto simp: connect_callback_def Let_def emit_def callback_open)

text \<open>
  Claim C2, as the code has it. When the callback of a round runs in state Idle or
  Monitoring, the monitor becomes Idle, stamps \<open>kLastCheckTime\<close>, clears the timer it
  holds and arms one timer for the next round. Its delay is undefined (the round is
  scheduled at once) when the round failed and the server's type is not Unknown, and also
  when the reply carries a topology version; in every other case it is
  \<open>heartbeatFrequencyMS\<close>. So a failed round is rescheduled at once for a server of known
  type and after \<open>heartbeatFrequencyMS\<close> for an Unknown one, and a successful plain round
  at once exactly when its reply has a topology version. In state Closing or Closed the
  callback schedules nothing.
\<close>

theorem next_round_delay:
  "(s_state m = STATE_IDLE \<or> s_state m = STATE_MONITORING \<longrightarrow>
      monitorServer_callback now err reply m =
        m\<lparr>s_state := STATE_IDLE,
          kLastCheckTime := Some now,
          timers := filter (\<lambda>t. Some (handle t) \<noteq> kMonitorId m) (timers m)
            @ [\<lparr>handle = nextTimerId m, callback = CB_forget_requestCheck,
                delay = (if err \<noteq> None \<and> sd_type (kServer m) \<noteq> Unknown then None
                         else if (\<exists>im tv. reply = Some im \<and> im_topologyVersion im = Some tv)
                           then None
                         else Some (heartbeatFrequencyMS (options m)))\<rparr>],
          nextTimerId := Suc (nextTimerId m),
          kMonitorId := Some (nextTimerId m)\<rparr>
      \<and> delay (last (timers (failureHandler now start e m))) =
          (if sd_type (kServer m) \<noteq> Unknown then None
           else Some (heartbeatFrequencyMS (options m)))
      \<and> delay (last (timers (command_callback now start False (Inr im) m))) =
          (if im_topologyVersion im \<noteq> None then None
           else Some (heartbeatFrequencyMS (options m)))
      \<and> delay (last (timers (connect_callback now start (Inr conn) m))) =
          (if im_topologyVersion (ismaster conn) \<noteq> None then None
           else Some (heartbeatFrequencyMS (options m))))
   \<and> (s_state m = STATE_CLOSING \<or> s_state m = STATE_CLOSED \<longrightarrow>
        monitorServer_callback now err reply m = m)"
  using callback_open [of m now err reply] callback_closed [of m now err reply]
    failure_delay [of m now start e] command_success_delay [of m now start im]
    connect_success_delay [of m now start conn]
  by blast

lemma trace_callback: "trace (monitorServer_callback now err reply m) = trace m"
  by (auto simp: monitorServer_callback_def rescheduleMonitoring_def stateTransition_def
      setTimeout_def clearTimeout_eq Let_def)

lemma kConnection_callback: "kConnection (monitorServer_callback now err reply m) = kConnection m"
  by (auto simp: monitorServer_callback_def rescheduleMonitoring_def stateTransition_def
      setTimeout_def clearTimeout_eq Let_def)

lemma trace_failureHandler:
  "trace (failureHandler now start err m) =
     trace m @ (if kConnection m \<noteq> None then [Destroy True] else [])
       @ [Emit (ServerHeartbeatFailed (now - start) err (address m)), Emit (Ev_resetServer err)]
       @ (if instanceofMongoNetworkError err then [Emit Ev_resetConnectionPool] else [])"
  by (simp add: failureHandler_def Let_def trace_callback emit_def effect_def)

lemma kConnection_failureHandler: "kConnection (failureHandler now start err m) = None"
  by (auto simp add: failureHandler_def Let_def kConnection_callback emit_def effect_def)

text \<open>
  Claim C4, as the code has it. Every failed round emits \<open>serverHeartbeatFailed\<close> and
  \<open>resetServer\<close> and leaves the monitor with no private connection. A command that
  fails destroys the connection the monitor holds, if any, with \<open>force\<close>, and emits
  \<open>resetConnectionPool\<close> exactly when the error is a network error. A connection
  attempt that fails destroys nothing: whatever connection the monitor holds by then is
  forgotten, not destroyed; and it emits \<open>resetConnectionPool\<close> once whatever the error,
  before the two events for an error that is not a network error, after them for a network
  error.
\<close>

theorem round_failure_effects:
  "trace (command_callback now start aw (Inl err) m) =
     trace m @ (if kConnection m \<noteq> None then [Destroy True] else [])
       @ [Emit (ServerHeartbeatFailed (now - start) err (address m)), Emit (Ev_resetServer err)]
       @ (if instanceofMongoNetworkError err then [Emit Ev_resetConnectionPool] else [])
   \<and> kConnection (command_callback now start aw (Inl err) m) = None
   \<and> trace (connect_callback now start (Inl err) m) =
       trace m @ (if instanceofMongoNetworkError err then [] else [Emit Ev_resetConnectionPool])
         @ [Emit (ServerHeartbeatFailed (now - start) err (address m)), Emit (Ev_resetServer err)]
         @ (if instanceofMongoNetworkError err then [Emit Ev_resetConnectionPool] else [])
   \<and> kConnection (connect_callback now start (Inl err) m) = None"
  by (simp add: command_callback_def connect_callback_def Let_def trace_failureHandler
      kConnection_failureHandler emit_def)

text \<open>
  Claim C5. With a private connection and a known topology version the round sends the
  command with \<open>maxAwaitTimeMS = heartbeatFrequencyMS\<close> and that topology version, with
  socket timeout \<open>connectTimeoutMS + heartbeatFrequencyMS\<close> and exhaust allowed, and the
  command in flight is awaitable. With a connection and no topology version it sends the
  plain command with socket timeout \<open>connectTimeoutMS\<close>. With no connection it connects.
  The round is awaitable exactly when a connection exists and the topology version is known.
\<close>

theorem checkServer_modes:
  "(kConnection m \<noteq> None \<and> sd_topologyVersion (kServer m) = Some tv \<longrightarrow>
      trace (checkServer now m) = trace m @
        [Emit (ServerHeartbeatStarted (address m)),
         Command ''admin.$cmd''
           \<lparr>cmd_ismaster = True,
            cmd_maxAwaitTimeMS = Some (heartbeatFrequencyMS (options m)),
            cmd_topologyVersion =
              Some \<lparr>cmd_processId = processId tv, cmd_counter = Long_fromNumber (counter tv)\<rparr>\<rparr>
           \<lparr>socketTimeout = connectTimeoutMS (options m) + heartbeatFrequencyMS (options m),
            exhaustAllowed = True\<rparr>]
      \<and> inflight (checkServer now m) = inflight m @ [PendingCommand now True])
   \<and> (kConnection m \<noteq> None \<and> sd_topologyVersion (kServer m) = None \<longrightarrow>
      trace (checkServer now m) = trace m @
        [Emit (ServerHeartbeatStarted (address m)),
         Command ''admin.$cmd''
           \<lparr>cmd_ismaster = True, cmd_maxAwaitTimeMS = None, cmd_topologyVersion = None\<rparr>
           \<lparr>socketTimeout = connectTimeoutMS (options m), exhaustAllowed = False\<rparr>]
      \<and> inflight (checkServer now m) = inflight m @ [PendingCommand now False])
   \<and> (kConnection m = None \<longrightarrow>
      trace (checkServer now m) = trace m @
        [Emit (ServerHeartbeatStarted (address m)), ConnectCall]
      \<and> inflight (checkServer now m) = inflight m @ [PendingConnect now])
   \<and> (last (inflight (checkServer now m)) = PendingCommand now True
        \<longleftrightarrow> kConnection m \<noteq> None \<and> sd_topologyVersion (kServer m) \<noteq> None)"
  by (auto simp: checkServer_def Let_def emit_def effect_def makeTopologyVersion_def)

lemma reset_open:
  assumes "s_state m = STATE_IDLE \<or> s_state m = STATE_MONITORING"
  shows "reset m =
     m\<lparr>s_state := STATE_IDLE,
       trace := trace m @ Cancel # (if kConnection m \<noteq> None then [Destroy True] else []),
       timers := filter (\<lambda>t. Some (handle t) \<noteq> kMonitorId m) (timers m)
         @ [\<lparr>handle = nextTimerId m, callback = CB_requestCheck,
             delay = Some (heartbeatFrequencyMS (options m))\<rparr>],
       nextTimerId := Suc (nextTimerId m),
       kMonitorId := Some (nextTimerId m)\<rparr>"
  using assms
  by (auto simp: reset_def stateTransition_def setTimeout_def effect_def clearTimeout_eq Let_def)

lemma timer_inv_filter:
  "timer_inv m \<Longrightarrow> filter (\<lambda>t. Some (handle t) \<noteq> kMonitorId m) (timers m) = []"
  by (auto simp: timer_inv_cases)

text \<open>
  Claim C7. In state Idle or Monitoring \<open>reset\<close> signals the cancellation token, clears
  the timer the monitor holds, destroys the private connection with \<open>force\<close> if there is
  one, leaves the state Idle and arms a timer of \<open>heartbeatFrequencyMS\<close> that calls
  \<open>requestCheck\<close>; on a monitor reached from a fresh one by any sequence of steps that
  timer is then the only one. In state Closed or Closing \<open>reset\<close> changes nothing.
\<close>

theorem reset_rearms:
  "(s_state m = STATE_IDLE \<or> s_state m = STATE_MONITORING \<longrightarrow>
      reset m =
        m\<lparr>s_state := STATE_IDLE,
          trace := trace m @ Cancel # (if kConnection m \<noteq> None then [Destroy True] else []),
          timers := filter (\<lambda>t. Some (handle t) \<noteq> kMonitorId m) (timers m)
            @ [\<lparr>handle = nextTimerId m, callback = CB_requestCheck,
                delay = Some (heartbeatFrequencyMS (options m))\<rparr>],
          nextTimerId := Suc (nextTimerId m),
          kMonitorId := Some (nextTimerId m)\<rparr>)
   \<and> (m = run acts (Monitor addr d opts)
        \<and> (s_state m = STATE_IDLE \<or> s_state m = STATE_MONITORING) \<longrightarrow>
      timers (reset m) =
        [\<lparr>handle = nextTimerId m, callback = CB_requestCheck,
          delay = Some (heartbeatFrequencyMS (options m))\<rparr>])
   \<and> (s_state m = STATE_CLOSED \<or> s_state m = STATE_CLOSING \<longrightarrow> reset m = m)"
proof (intro conjI impI)
  assume "s_state m = STATE_IDLE \<or> s_state m = STATE_MONITORING"
  then show "reset m =
        m\<lparr>s_state := STATE_IDLE,
          trace := trace m @ Cancel # (if kConnection m \<noteq> None then [Destroy True] else []),
          timers := filter (\<lambda>t. Some (handle t) \<noteq> kMonitorId m) (timers m)
            @ [\<lparr>handle = nextTimerId m, callback = CB_requestCheck,
                delay = Some (heartbeatFrequencyMS (options m))\<rparr>],
          nextTimerId := Suc (nextTimerId m),
          kMonitorId := Some (nextTimerId m)\<rparr>"
    by (rule reset_open)
next
  assume a: "m = run acts (Monitor addr d opts)
     \<and> (s_state m = STATE_IDLE \<or> s_state m = STATE_MONITORING)"
  then have "timer_inv m" by (simp add: timer_inv_run timer_inv_Monitor)
  then have "filter (\<lambda>t. Some (handle t) \<noteq> kMonitorId m) (timers m) = []"
    by (rule timer_inv_filter)
  moreover from a have "s_state m = STATE_IDLE \<or> s_state m = STATE_MONITORING" by blast
  ultimately show "timers (reset m) =
        [\<lparr>handle = nextTimerId m, callback = CB_requestCheck,
          delay = Some (heartbeatFrequencyMS (options m))\<rparr>]"
    by (simp add: reset_open)
next
  assume "s_state m = STATE_CLOSED \<or> s_state m = STATE_CLOSING"
  then show "reset m = m" by (simp add: reset_def)
qed

subsection \<open>Monitor: requestCheck, close, the invariants over runs\<close>



lemma requestCheck_reschedule:
  assumes "s_state m = STATE_IDLE"
    "minHeartbeatFrequencyMS (options m)
       < heartbeatFrequencyMS (options m) - calculateDurationInMs now (kLastCheckTime m)"
    "kMonitorId m \<noteq> None"
  shows "requestCheck now m =
     m\<lparr>s_state := STATE_IDLE,
       kLastCheckTime := Some now,
       timers := filter (\<lambda>t. Some (handle t) \<noteq> kMonitorId m) (timers m)
         @ [\<lparr>handle = nextTimerId m, callback = CB_forget_requestCheck,
             delay = Some (minHeartbeatFrequencyMS (options m))\<rparr>],
       nextTimerId := Suc (nextTimerId m),
       kMonitorId := Some (nextTimerId m)\<rparr>"
  using assms
  by (auto simp: requestCheck_def INVALID_REQUEST_CHECK_STATES_def rescheduleMonitoring_def
      stateTransition_def setTimeout_def clearTimeout_eq Let_def)

lemma requestCheck_round:
  assumes "s_state m = STATE_IDLE"
    "\<not> (minHeartbeatFrequencyMS (options m)
          < heartbeatFrequencyMS (options m) - calculateDurationInMs now (kLastCheckTime m)
        \<and> kMonitorId m \<noteq> None)"
  shows "s_state (requestCheck now m) = STATE_MONITORING
     \<and> timers (requestCheck now m) = filter (\<lambda>t. Some (handle t) \<noteq> kMonitorId m) (timers m)
     \<and> inflight (requestCheck now m) = inflight m @
         [if kConnection m \<noteq> None
          then PendingCommand now (sd_topologyVersion (kServer m) \<noteq> None)
          else PendingConnect now]"
  using assms
  by (auto simp: requestCheck_def INVALID_REQUEST_CHECK_STATES_def monitorServer_def
      checkServer_def emit_def effect_def stateTransition_def clearTimeout_eq Let_def)

lemma requestCheck_ignored:
  "s_state m = STATE_CLOSING \<or> s_state m = STATE_CLOSED \<or> s_state m = STATE_MONITORING \<Longrightarrow>
     requestCheck now m = m"
  by (auto simp: requestCheck_def INVALID_REQUEST_CHECK_STATES_def)

text \<open>
  Claim C3, as the code has it. In state Idle, with
  \<open>remaining = heartbeatFrequencyMS - elapsed(lastCheckTime)\<close>: if
  \<open>remaining > minHeartbeatFrequencyMS\<close> and the monitor holds a timer handle, the timer
  it holds is cleared and one is armed for \<open>minHeartbeatFrequencyMS\<close>, the check time
  stamped anew, the state still Idle; otherwise the timer it holds is cleared and a round
  starts at once (state Monitoring, one more entry in flight). In the states Closing, Closed
  and Monitoring \<open>requestCheck\<close> changes nothing.
\<close>

theorem requestCheck_cases:
  "(s_state m = STATE_IDLE
      \<and> minHeartbeatFrequencyMS (options m)
          < heartbeatFrequencyMS (options m) - calculateDurationInMs now (kLastCheckTime m)
      \<and> kMonitorId m \<noteq> None \<longrightarrow>
      requestCheck now m =
        m\<lparr>s_state := STATE_IDLE,
          kLastCheckTime := Some now,
          timers := filter (\<lambda>t. Some (handle t) \<noteq> kMonitorId m) (timers m)
            @ [\<lparr>handle = nextTimerId m, callback = CB_forget_requestCheck,
                delay = Some (minHeartbeatFrequencyMS (options m))\<rparr>],
          nextTimerId := Suc (nextTimerId m),
          kMonitorId := Some (nextTimerId m)\<rparr>)
   \<and> (s_state m = STATE_IDLE
      \<and> \<not> (minHeartbeatFrequencyMS (options m)
             < heartbeatFrequencyMS (options m) - calculateDurationInMs now (kLastCheckTime m)
           \<and> kMonitorId m \<noteq> None) \<longrightarrow>
      s_state (requestCheck now m) = STATE_MONITORING
      \<and> timers (requestCheck now m)
          = filter (\<lambda>t. Some (handle t) \<noteq> kMonitorId m) (timers m)
      \<and> inflight (requestCheck now m) = inflight m @
          [if kConnection m \<noteq> None
           then PendingCommand now (sd_topologyVersion (kServer m) \<noteq> None)
           else PendingConnect now])
   \<and> (s_state m = STATE_CLOSING \<or> s_state m = STATE_CLOSED \<or> s_state m = STATE_MONITORING \<longrightarrow>
      requestCheck now m = m)"
  using requestCheck_reschedule [of m now] requestCheck_round [of m now]
    requestCheck_ignored [of m now]
  by blast

lemma close_closed: "s_state m \<noteq> STATE_CLOSING \<Longrightarrow> s_state (close m) = STATE_CLOSED"
  by (cases "s_state m") (auto simp: close_def stateTransition_def effect_def emit_def Let_def)

lemma close_frame:
  "kConnection (close m) = kConnection m \<and> inflight (close m) = inflight m
     \<and> address (close m) = address m \<and> kServer (close m) = kServer m"
  by (auto simp: close_def stateTransition_def effect_def emit_def clearTimeout_eq Let_def)

lemma connect_from_closed:
  assumes "s_state c = STATE_CLOSED"
  shows "s_state (connect now c) = STATE_MONITORING
     \<and> inflight (connect now c) = inflight c @
         [if kConnection c \<noteq> None
          then PendingCommand now (sd_topologyVersion (kServer c) \<noteq> None)
          else PendingConnect now]
     \<and> (\<exists>x. trace (connect now c) = trace c @ [Emit (ServerHeartbeatStarted (address c)), x])
     \<and> timers (connect now c) = timers c"
  using assms
  by (auto simp: connect_def monitorServer_def checkServer_def emit_def effect_def
      stateTransition_def Let_def)

text \<open>
  Claim C1, as the code has it. \<open>close\<close> leaves the monitor Closed. From there \<open>reset\<close>
  and \<open>requestCheck\<close> change nothing: the state stays Closed, no timer is armed, no round
  starts, nothing is emitted. \<open>connect\<close> arms no timer, but Closed is also the state of a
  fresh monitor and \<open>connect\<close> starts a round from it: the state becomes Monitoring, a
  \<open>serverHeartbeatStarted\<close> event is emitted and one more entry is in flight.
\<close>

theorem after_close:
  "s_state m \<noteq> STATE_CLOSING \<longrightarrow>
     s_state (close m) = STATE_CLOSED
     \<and> reset (close m) = close m
     \<and> requestCheck now (close m) = close m
     \<and> s_state (connect now (close m)) = STATE_MONITORING
     \<and> inflight (connect now (close m)) = inflight m @
         [if kConnection m \<noteq> None
          then PendingCommand now (sd_topologyVersion (kServer m) \<noteq> None)
          else PendingConnect now]
     \<and> (\<exists>x. trace (connect now (close m))
           = trace (close m) @ [Emit (ServerHeartbeatStarted (address m)), x])
     \<and> timers (connect now (close m)) = timers (close m)"
proof
  assume "s_state m \<noteq> STATE_CLOSING"
  then have c: "s_state (close m) = STATE_CLOSED" by (rule close_closed)
  have r: "reset (close m) = close m" using c by (simp add: reset_def)
  have q: "requestCheck now (close m) = close m" using c by (simp add: requestCheck_ignored)
  show "s_state (close m) = STATE_CLOSED
     \<and> reset (close m) = close m
     \<and> requestCheck now (close m) = close m
     \<and> s_state (connect now (close m)) = STATE_MONITORING
     \<and> inflight (connect now (close m)) = inflight m @
         [if kConnection m \<noteq> None
          then PendingCommand now (sd_topologyVersion (kServer m) \<noteq> None)
          else PendingConnect now]
     \<and> (\<exists>x. trace (connect now (close m))
           = trace (close m) @ [Emit (ServerHeartbeatStarted (address m)), x])
     \<and> timers (connect now (close m)) = timers (close m)"
    using c r q connect_from_closed [OF c, of now] close_frame [of m] by simp
qed

lemma round_start_states:
  assumes "length (inflight m) < length (inflight (step a m))"
  shows "s_state m = STATE_CLOSED \<or> s_state m = STATE_IDLE"
proof (cases a)
  case (Pair now act)
  have rc: "length (inflight m') < length (inflight (requestCheck now m')) \<Longrightarrow> s_state m' = STATE_IDLE"
    for m'
    by (cases "s_state m'") (auto simp: requestCheck_def INVALID_REQUEST_CHECK_STATES_def)
  have cb: "length (inflight (monitorServer_callback t e r m')) = length (inflight m')"
    for t e r m'
    by (auto simp: monitorServer_callback_def rescheduleMonitoring_def stateTransition_def
        setTimeout_def clearTimeout_eq Let_def)
  have fh: "length (inflight (failureHandler t s e m')) = length (inflight m')" for t s e m'
    by (auto simp: failureHandler_def Let_def cb emit_def effect_def)
  have cc: "length (inflight (command_callback t s aw r m')) = length (inflight m')"
    for t s aw r m'
    by (cases r) (auto simp: command_callback_def Let_def cb fh emit_def)
  have nc: "length (inflight (connect_callback t s r m')) = length (inflight m')" for t s r m'
    by (cases r) (auto simp: connect_callback_def Let_def cb fh emit_def)
  have io: "length (inflight (ioCompletes now i r m)) \<le> length (inflight m)" for i r
    by (auto simp: ioCompletes_def cc nc split: pendingIO.splits ioReply.splits)
  show ?thesis
  proof (cases act)
    case A_connect
    then show ?thesis using assms Pair by (auto simp: connect_def split: if_splits)
  next
    case A_requestCheck
    then show ?thesis using assms Pair rc by auto
  next
    case A_reset
    then show ?thesis using assms Pair
      by (auto simp: reset_def stateTransition_def setTimeout_def effect_def clearTimeout_eq
          Let_def split: if_splits)
  next
    case A_close
    then show ?thesis using assms Pair
      by (auto simp: close_def stateTransition_def emit_def effect_def clearTimeout_eq
          Let_def split: if_splits)
  next
    case (A_timerFires h)
    then show ?thesis using assms Pair
        rc [of "m\<lparr>timers := filter (\<lambda>t. handle t \<noteq> h) (timers m)\<rparr>"]
        rc [of "m\<lparr>timers := filter (\<lambda>t. handle t \<noteq> h) (timers m), kMonitorId := None\<rparr>"]
      by (auto simp: timerFires_def Let_def split: option.splits timerCallback.splits)
  next
    case A_nextTick
    then show ?thesis using assms Pair
      by (auto simp: runNextTick_def emit_def split: list.splits)
  next
    case (A_ioCompletes i r)
    then show ?thesis using assms Pair io [of i r] by simp
  next
    case (A_description d)
    then show ?thesis using assms Pair by simp
  qed
qed

text \<open>
  Claim C6, as the code has it. After any sequence of operations and steps of the
  environment on a fresh monitor at most one timer is armed; this covers any number of
  \<open>requestCheck\<close> calls in a row. As long as \<open>reset\<close> and \<open>close\<close> are not called
  while a round is in flight (in state Monitoring), at most one round is in flight; calls
  of \<open>reset\<close> and \<open>close\<close> in any other state keep it so. A step puts a round in
  flight only from state Closed or Idle, never from Monitoring.
\<close>

theorem one_timer_one_round:
  "length (timers (run acts (Monitor addr d opts))) \<le> 1
   \<and> (uninterrupted acts (Monitor addr d opts) \<longrightarrow>
        length (inflight (run acts (Monitor addr d opts))) \<le> 1)
   \<and> (length (inflight m) < length (inflight (step a m)) \<longrightarrow>
        s_state m = STATE_CLOSED \<or> s_state m = STATE_IDLE)"
  using timer_inv_length [OF timer_inv_run [OF timer_inv_Monitor]]
    round_inv_length [OF round_inv_run [OF round_inv_Monitor]]
    round_start_states [of m a]
  by blast

subsection \<open>Monitor: the theorems at sample monitors\<close>


lemma idleMonitor_eq:
  "idleMonitor =
     \<lparr>address = ''db1:27017'',
      options = \<lparr>connectTimeoutMS = 10000, heartbeatFrequencyMS = 10000,
                 minHeartbeatFrequencyMS = 500\<rparr>,
      s_state = STATE_IDLE,
      kServer = sampleServer,
      kConnection = Some sampleConnection,
      kMonitorId = Some 0,
      kLastCheckTime = Some 5,
      timers = [\<lparr>handle = 0, callback = CB_forget_requestCheck, delay = Some 10000\<rparr>],
      nextTimerId = 1,
      inflight = [],
      nextTicks = [Ev_monitoring],
      trace = [Emit (ServerHeartbeatStarted ''db1:27017''), ConnectCall,
               Emit (ServerHeartbeatSucceeded 5 \<lparr>im_topologyVersion = None\<rparr> ''db1:27017'')]\<rparr>"
  by (simp add: idleMonitor_def sampleMonitor_def sampleServer_def defaultOptions_def
      sampleConnection_def monitor_defs)

lemma monitoringMonitor_eq:
  "monitoringMonitor =
     \<lparr>address = ''db1:27017'',
      options = \<lparr>connectTimeoutMS = 10000, heartbeatFrequencyMS = 10000,
                 minHeartbeatFrequencyMS = 500\<rparr>,
      s_state = STATE_MONITORING,
      kServer = primaryServer,
      kConnection = Some sampleConnection,
      kMonitorId = None,
      kLastCheckTime = Some 5,
      timers = [],
      nextTimerId = 1,
      inflight = [PendingCommand 10005 False],
      nextTicks = [Ev_monitoring, Ev_monitoring],
      trace = [Emit (ServerHeartbeatStarted ''db1:27017''), ConnectCall,
               Emit (ServerHeartbeatSucceeded 5 \<lparr>im_topologyVersion = None\<rparr> ''db1:27017''),
               Emit (ServerHeartbeatStarted ''db1:27017''),
               Command ''admin.$cmd''
                 \<lparr>cmd_ismaster = True, cmd_maxAwaitTimeMS = None, cmd_topologyVersion = None\<rparr>
                 \<lparr>socketTimeout = 10000, exhaustAllowed = False\<rparr>]\<rparr>"
  by (simp add: monitoringMonitor_def idleMonitor_eq primaryServer_def sampleConnection_def
      monitor_defs)

lemma rescheduledMonitor_eq:
  "rescheduledMonitor =
     \<lparr>address = ''db1:27017'',
      options = \<lparr>connectTimeoutMS = 10000, heartbeatFrequencyMS = 10000,
                 minHeartbeatFrequencyMS = 500\<rparr>,
      s_state = STATE_IDLE,
      kServer = sampleServer,
      kConnection = Some sampleConnection,
      kMonitorId = Some 1,
      kLastCheckTime = Some 105,
      timers = [\<lparr>handle = 1, callback = CB_forget_requestCheck, delay = Some 500\<rparr>],
      nextTimerId = 2,
      inflight = [],
      nextTicks = [Ev_monitoring],
      trace = [Emit (ServerHeartbeatStarted ''db1:27017''), ConnectCall,
               Emit (ServerHeartbeatSucceeded 5 \<lparr>im_topologyVersion = None\<rparr> ''db1:27017'')]\<rparr>"
  by (simp add: rescheduledMonitor_def idleMonitor_eq monitor_defs)

lemmas sample_eqs = idleMonitor_eq monitoringMonitor_eq rescheduledMonitor_eq

text \<open>The theorem at the idle monitor.\<close>

theorem after_close_witness:
  "s_state idleMonitor \<noteq> STATE_CLOSING
   \<and> s_state (close idleMonitor) = STATE_CLOSED
   \<and> reset (close idleMonitor) = close idleMonitor
   \<and> requestCheck 20 (close idleMonitor) = close idleMonitor
   \<and> s_state (connect 20 (close idleMonitor)) = STATE_MONITORING"
proof -
  have h: "s_state idleMonitor \<noteq> STATE_CLOSING" by (simp add: idleMonitor_eq)
  show ?thesis using after_close [of idleMonitor 20] h by blast
qed

text \<open>
  Claim C1 as stated fails for \<open>connect\<close>: on the idle monitor, closed, it sets the state
  to Monitoring, emits \<open>serverHeartbeatStarted\<close> and sends a command.
\<close>

theorem after_close_counterexample:
  "s_state (close idleMonitor) = STATE_CLOSED
   \<and> inflight (close idleMonitor) = []
   \<and> s_state (connect 20 (close idleMonitor)) = STATE_MONITORING
   \<and> inflight (connect 20 (close idleMonitor)) = [PendingCommand 20 False]
   \<and> trace (connect 20 (close idleMonitor)) =
       trace (close idleMonitor) @
         [Emit (ServerHeartbeatStarted ''db1:27017''),
          Command ''admin.$cmd''
            \<lparr>cmd_ismaster = True, cmd_maxAwaitTimeMS = None, cmd_topologyVersion = None\<rparr>
            \<lparr>socketTimeout = 10000, exhaustAllowed = False\<rparr>]
   \<and> connect 20 (close idleMonitor) \<noteq> close idleMonitor"
proof -
  have s: "s_state (close idleMonitor) = STATE_CLOSED
   \<and> inflight (close idleMonitor) = []
   \<and> s_state (connect 20 (close idleMonitor)) = STATE_MONITORING
   \<and> inflight (connect 20 (close idleMonitor)) = [PendingCommand 20 False]
   \<and> trace (connect 20 (close idleMonitor)) =
       trace (close idleMonitor) @
         [Emit (ServerHeartbeatStarted ''db1:27017''),
          Command ''admin.$cmd''
            \<lparr>cmd_ismaster = True, cmd_maxAwaitTimeMS = None, cmd_topologyVersion = None\<rparr>
            \<lparr>socketTimeout = 10000, exhaustAllowed = False\<rparr>]"
    by (simp add: idleMonitor_eq sampleServer_def monitor_defs)
  then have "connect 20 (close idleMonitor) \<noteq> close idleMonitor" by auto
  with s show ?thesis by blast
qed

text \<open>
  The theorem at a monitor with a command in flight to a primary (a failure, a plain reply,
  a reply with a topology version) and at a closed monitor.
\<close>

theorem next_round_delay_witness:
  "(s_state monitoringMonitor = STATE_IDLE \<or> s_state monitoringMonitor = STATE_MONITORING)
   \<and> delay (last (timers (failureHandler 10010 10005 (MongoNetworkError ''timed out'')
        monitoringMonitor))) = None
   \<and> delay (last (timers (command_callback 10010 10005 False
        (Inr \<lparr>im_topologyVersion = None\<rparr>) monitoringMonitor))) = Some 10000
   \<and> delay (last (timers (command_callback 10010 10005 False
        (Inr \<lparr>im_topologyVersion = Some \<lparr>processId = 7, counter = 3\<rparr>\<rparr>) monitoringMonitor))) = None
   \<and> (s_state (close idleMonitor) = STATE_CLOSING \<or> s_state (close idleMonitor) = STATE_CLOSED)
   \<and> monitorServer_callback 30 None None (close idleMonitor) = close idleMonitor"
proof -
  have h1: "s_state monitoringMonitor = STATE_MONITORING"
    and h2: "sd_type (kServer monitoringMonitor) = Primary"
    and h3: "heartbeatFrequencyMS (options monitoringMonitor) = 10000"
    by (simp_all add: monitoringMonitor_eq primaryServer_def)
  have h4: "s_state (close idleMonitor) = STATE_CLOSED"
    by (simp add: close_closed idleMonitor_eq)
  show ?thesis
    using h1 h2 h3 h4
      next_round_delay [of monitoringMonitor 10010 None None 10005 "MongoNetworkError ''timed out''"
        "\<lparr>im_topologyVersion = None\<rparr>" sampleConnection]
      next_round_delay [of monitoringMonitor 10010 None None 10005 "MongoNetworkError ''timed out''"
        "\<lparr>im_topologyVersion = Some \<lparr>processId = 7, counter = 3\<rparr>\<rparr>" sampleConnection]
      next_round_delay [of "close idleMonitor" 30 None None]
    by simp
qed

text \<open>
  Claim C2 as stated fails at a failed round on a server known as a primary, with
  \<open>heartbeatFrequencyMS\<close> 10000: the timer armed has no delay, it is not a timer of
  10000 ms.
\<close>

theorem next_round_delay_counterexample:
  "s_state monitoringMonitor = STATE_MONITORING
   \<and> sd_type (kServer monitoringMonitor) = Primary
   \<and> heartbeatFrequencyMS (options monitoringMonitor) = 10000
   \<and> inflight monitoringMonitor = [PendingCommand 10005 False]
   \<and> timers (monitorServer_callback 10010 (Some (MongoNetworkError ''timed out'')) None
        monitoringMonitor)
       = [\<lparr>handle = 1, callback = CB_forget_requestCheck, delay = None\<rparr>]
   \<and> timers (ioCompletes 10010 0 (CommandReply (Inl (MongoNetworkError ''timed out'')))
        monitoringMonitor)
       = [\<lparr>handle = 1, callback = CB_forget_requestCheck, delay = None\<rparr>]"
  by (simp add: monitoringMonitor_eq primaryServer_def monitor_defs)

text \<open>
  The theorem at the idle monitor 100 ms and 10000 ms after its last check, and at a
  monitoring one.
\<close>

theorem requestCheck_cases_witness:
  "s_state idleMonitor = STATE_IDLE
   \<and> minHeartbeatFrequencyMS (options idleMonitor)
       < heartbeatFrequencyMS (options idleMonitor)
           - calculateDurationInMs 105 (kLastCheckTime idleMonitor)
   \<and> kMonitorId idleMonitor \<noteq> None
   \<and> timers (requestCheck 105 idleMonitor)
       = [\<lparr>handle = 1, callback = CB_forget_requestCheck, delay = Some 500\<rparr>]
   \<and> s_state (requestCheck 105 idleMonitor) = STATE_IDLE
   \<and> \<not> (minHeartbeatFrequencyMS (options idleMonitor)
          < heartbeatFrequencyMS (options idleMonitor)
              - calculateDurationInMs 10005 (kLastCheckTime idleMonitor))
   \<and> s_state (requestCheck 10005 idleMonitor) = STATE_MONITORING
   \<and> timers (requestCheck 10005 idleMonitor) = []
   \<and> inflight (requestCheck 10005 idleMonitor) = [PendingCommand 10005 False]
   \<and> s_state monitoringMonitor = STATE_MONITORING
   \<and> requestCheck 10006 monitoringMonitor = monitoringMonitor"
proof -
  have a: "s_state idleMonitor = STATE_IDLE"
    and b: "minHeartbeatFrequencyMS (options idleMonitor)
       < heartbeatFrequencyMS (options idleMonitor)
           - calculateDurationInMs 105 (kLastCheckTime idleMonitor)"
    and c: "kMonitorId idleMonitor \<noteq> None"
    and d: "\<not> (minHeartbeatFrequencyMS (options idleMonitor)
          < heartbeatFrequencyMS (options idleMonitor)
              - calculateDurationInMs 10005 (kLastCheckTime idleMonitor))"
    and e: "s_state monitoringMonitor = STATE_MONITORING"
    and f: "timers idleMonitor = [\<lparr>handle = 0, callback = CB_forget_requestCheck, delay = Some 10000\<rparr>]"
       "kMonitorId idleMonitor = Some 0" "nextTimerId idleMonitor = 1"
       "inflight idleMonitor = []" "kConnection idleMonitor = Some sampleConnection"
       "sd_topologyVersion (kServer idleMonitor) = None"
       "minHeartbeatFrequencyMS (options idleMonitor) = 500"
    by (simp_all add: idleMonitor_eq monitoringMonitor_eq sampleServer_def)
  show ?thesis
    using a b c d e f requestCheck_cases [of idleMonitor 105]
      requestCheck_cases [of idleMonitor 10005] requestCheck_cases [of monitoringMonitor 10006]
    by simp
qed

text \<open>
  Claim C3 as stated fails at the call \<open>requestCheck\<close> gets from the timer that
  \<open>rescheduleMonitoring\<close> armed: the callback has forgotten the handle, the state is Idle,
  \<open>remaining\<close> is 9500 and above \<open>minHeartbeatFrequencyMS\<close> = 500, and a round starts
  at once; no timer is armed.
\<close>

theorem requestCheck_cases_counterexample:
  "timerFires 605 1 rescheduledMonitor
     = requestCheck 605 (rescheduledMonitor\<lparr>timers := [], kMonitorId := None\<rparr>)
   \<and> s_state (rescheduledMonitor\<lparr>timers := [], kMonitorId := None\<rparr>) = STATE_IDLE
   \<and> heartbeatFrequencyMS (options rescheduledMonitor)
       - calculateDurationInMs 605 (kLastCheckTime rescheduledMonitor) = 9500
   \<and> minHeartbeatFrequencyMS (options rescheduledMonitor) = 500
   \<and> s_state (requestCheck 605 (rescheduledMonitor\<lparr>timers := [], kMonitorId := None\<rparr>))
       = STATE_MONITORING
   \<and> timers (requestCheck 605 (rescheduledMonitor\<lparr>timers := [], kMonitorId := None\<rparr>)) = []
   \<and> inflight (requestCheck 605 (rescheduledMonitor\<lparr>timers := [], kMonitorId := None\<rparr>))
       = [PendingCommand 605 False]"
  by (simp add: rescheduledMonitor_eq sampleServer_def monitor_defs)

text \<open>
  The theorem at a command in flight that fails with either kind of error, and at a
  connection attempt that fails after a later attempt has given the monitor a connection:
  the connection is forgotten and no \<open>Destroy\<close> is recorded.
\<close>

theorem round_failure_effects_witness:
  "trace (command_callback 10010 10005 False (Inl (MongoError ''not master'')) monitoringMonitor)
     = trace monitoringMonitor @
        [Destroy True,
         Emit (ServerHeartbeatFailed 5 (MongoError ''not master'') ''db1:27017''),
         Emit (Ev_resetServer (MongoError ''not master''))]
   \<and> trace (command_callback 10010 10005 False (Inl (MongoNetworkError ''timed out''))
        monitoringMonitor)
     = trace monitoringMonitor @
        [Destroy True,
         Emit (ServerHeartbeatFailed 5 (MongoNetworkError ''timed out'') ''db1:27017''),
         Emit (Ev_resetServer (MongoNetworkError ''timed out'')),
         Emit Ev_resetConnectionPool]
   \<and> inflight twoAttemptsMonitor = [PendingConnect 0]
   \<and> kConnection twoAttemptsMonitor = Some sampleConnection
   \<and> trace (connect_callback 10030 0 (Inl (MongoNetworkError ''cancelled'')) twoAttemptsMonitor)
     = trace twoAttemptsMonitor @
        [Emit (ServerHeartbeatFailed 10030 (MongoNetworkError ''cancelled'') ''db1:27017''),
         Emit (Ev_resetServer (MongoNetworkError ''cancelled'')),
         Emit Ev_resetConnectionPool]
   \<and> kConnection (connect_callback 10030 0 (Inl (MongoNetworkError ''cancelled''))
        twoAttemptsMonitor) = None"
proof -
  have h: "kConnection monitoringMonitor \<noteq> None" "address monitoringMonitor = ''db1:27017''"
    by (simp_all add: monitoringMonitor_eq)
  have t: "inflight twoAttemptsMonitor = [PendingConnect 0]"
      "kConnection twoAttemptsMonitor = Some sampleConnection"
      "address twoAttemptsMonitor = ''db1:27017''"
    by (simp_all add: twoAttemptsMonitor_def sampleMonitor_def sampleServer_def
        defaultOptions_def sampleConnection_def monitor_defs)
  show ?thesis
    using h t
      round_failure_effects [of 10010 10005 False "MongoError ''not master''" monitoringMonitor]
      round_failure_effects [of 10010 10005 False "MongoNetworkError ''timed out''"
        monitoringMonitor]
      round_failure_effects [of 10030 0 False "MongoNetworkError ''cancelled''"
        twoAttemptsMonitor]
    by simp
qed

text \<open>
  Claim C4 as stated fails at a connection attempt that ends in an error which is not a
  network error: \<open>resetConnectionPool\<close> is emitted all the same.
\<close>

theorem round_failure_effects_counterexample:
  "\<not> instanceofMongoNetworkError (MongoError ''handshake failed'')
   \<and> trace (run [(0, A_connect),
        (20, A_ioCompletes 0 (ConnectReply (Inl (MongoError ''handshake failed''))))]
        sampleMonitor)
     = [Emit (ServerHeartbeatStarted ''db1:27017''), ConnectCall,
        Emit Ev_resetConnectionPool,
        Emit (ServerHeartbeatFailed 20 (MongoError ''handshake failed'') ''db1:27017''),
        Emit (Ev_resetServer (MongoError ''handshake failed''))]"
  by (simp add: sampleMonitor_def sampleServer_def defaultOptions_def monitor_defs)

text \<open>The theorem at a streaming server, at a plain one and at a fresh monitor.\<close>

theorem checkServer_modes_witness:
  "kConnection (monitoringMonitor\<lparr>kServer := streamingServer\<rparr>) \<noteq> None
   \<and> sd_topologyVersion (kServer (monitoringMonitor\<lparr>kServer := streamingServer\<rparr>))
       = Some \<lparr>processId = 7, counter = 3\<rparr>
   \<and> trace (checkServer 20000 (monitoringMonitor\<lparr>kServer := streamingServer\<rparr>))
       = trace monitoringMonitor @
          [Emit (ServerHeartbeatStarted ''db1:27017''),
           Command ''admin.$cmd''
             \<lparr>cmd_ismaster = True, cmd_maxAwaitTimeMS = Some 10000,
              cmd_topologyVersion = Some \<lparr>cmd_processId = 7, cmd_counter = Long_fromNumber 3\<rparr>\<rparr>
             \<lparr>socketTimeout = 20000, exhaustAllowed = True\<rparr>]
   \<and> kConnection idleMonitor \<noteq> None
   \<and> sd_topologyVersion (kServer idleMonitor) = None
   \<and> trace (checkServer 20000 idleMonitor)
       = trace idleMonitor @
          [Emit (ServerHeartbeatStarted ''db1:27017''),
           Command ''admin.$cmd''
             \<lparr>cmd_ismaster = True, cmd_maxAwaitTimeMS = None, cmd_topologyVersion = None\<rparr>
             \<lparr>socketTimeout = 10000, exhaustAllowed = False\<rparr>]
   \<and> kConnection sampleMonitor = None
   \<and> inflight (checkServer 0 sampleMonitor) = [PendingConnect 0]"
proof -
  let ?s = "monitoringMonitor\<lparr>kServer := streamingServer\<rparr>"
  have h: "kConnection ?s \<noteq> None"
      "sd_topologyVersion (kServer ?s) = Some \<lparr>processId = 7, counter = 3\<rparr>"
      "address ?s = ''db1:27017''" "trace ?s = trace monitoringMonitor"
      "heartbeatFrequencyMS (options ?s) = 10000" "connectTimeoutMS (options ?s) = 10000"
    by (simp_all add: monitoringMonitor_eq streamingServer_def)
  have i: "kConnection idleMonitor \<noteq> None" "sd_topologyVersion (kServer idleMonitor) = None"
      "address idleMonitor = ''db1:27017''" "connectTimeoutMS (options idleMonitor) = 10000"
    by (simp_all add: idleMonitor_eq sampleServer_def)
  have j: "kConnection sampleMonitor = None" "inflight sampleMonitor = []"
    by (simp_all add: sampleMonitor_def Monitor_def)
  show ?thesis
    using h i j
      checkServer_modes [of ?s "\<lparr>processId = 7, counter = 3\<rparr>" 20000]
      checkServer_modes [of idleMonitor _ 20000]
      checkServer_modes [of sampleMonitor _ 0]
    by simp
qed

text \<open>
  The theorem at a sequence with two \<open>requestCheck\<close> calls 100 ms apart, a \<open>reset\<close>
  and a \<open>close\<close> in state Idle and a round in between, and at the round that
  \<open>requestCheck\<close> starts from Idle.
\<close>

theorem one_timer_one_round_witness:
  "uninterrupted
      [(0, A_connect), (5, A_ioCompletes 0 (ConnectReply (Inr sampleConnection))),
       (105, A_requestCheck), (205, A_requestCheck), (300, A_reset), (10300, A_timerFires 3),
       (10350, A_ioCompletes 0 (CommandReply (Inr \<lparr>im_topologyVersion = None\<rparr>))),
       (10400, A_close)] sampleMonitor
   \<and> length (timers (run
      [(0, A_connect), (5, A_ioCompletes 0 (ConnectReply (Inr sampleConnection))),
       (105, A_requestCheck), (205, A_requestCheck), (300, A_reset), (10300, A_timerFires 3),
       (10350, A_ioCompletes 0 (CommandReply (Inr \<lparr>im_topologyVersion = None\<rparr>))),
       (10400, A_close)] sampleMonitor)) \<le> 1
   \<and> length (inflight (run
      [(0, A_connect), (5, A_ioCompletes 0 (ConnectReply (Inr sampleConnection))),
       (105, A_requestCheck), (205, A_requestCheck), (300, A_reset), (10300, A_timerFires 3),
       (10350, A_ioCompletes 0 (CommandReply (Inr \<lparr>im_topologyVersion = None\<rparr>))),
       (10400, A_close)] sampleMonitor)) \<le> 1
   \<and> s_state (run
      [(0, A_connect), (5, A_ioCompletes 0 (ConnectReply (Inr sampleConnection))),
       (105, A_requestCheck), (205, A_requestCheck), (300, A_reset), (10300, A_timerFires 3)]
       sampleMonitor) = STATE_MONITORING
   \<and> length (inflight idleMonitor) < length (inflight (step (10005, A_requestCheck) idleMonitor))
   \<and> (s_state idleMonitor = STATE_CLOSED \<or> s_state idleMonitor = STATE_IDLE)"
proof -
  let ?acts = "[(0, A_connect), (5, A_ioCompletes 0 (ConnectReply (Inr sampleConnection))),
       (105, A_requestCheck), (205, A_requestCheck), (300, A_reset), (10300, A_timerFires 3),
       (10350, A_ioCompletes 0 (CommandReply (Inr \<lparr>im_topologyVersion = None\<rparr>))),
       (10400::real, A_close)]"
  have h: "uninterrupted ?acts (Monitor ''db1:27017'' sampleServer defaultOptions)"
    by (simp add: sampleServer_def defaultOptions_def sampleConnection_def monitor_defs)
  have k: "s_state (run
      [(0, A_connect), (5, A_ioCompletes 0 (ConnectReply (Inr sampleConnection))),
       (105, A_requestCheck), (205, A_requestCheck), (300, A_reset), (10300, A_timerFires 3)]
       (Monitor ''db1:27017'' sampleServer defaultOptions)) = STATE_MONITORING"
    by (simp add: sampleServer_def defaultOptions_def sampleConnection_def monitor_defs)
  have g: "length (inflight idleMonitor)
      < length (inflight (step (10005, A_requestCheck) idleMonitor))"
    by (simp add: idleMonitor_eq sampleServer_def monitor_defs)
  show ?thesis
    using h k g
      one_timer_one_round [of ?acts "''db1:27017''" sampleServer defaultOptions idleMonitor
        "(10005, A_requestCheck)"]
    unfolding sampleMonitor_def by blast
qed

text \<open>
  Claim C6 as stated fails after \<open>reset\<close>: the state is Idle again while the command of
  the cancelled round is still in flight, and a \<open>requestCheck\<close> that finds the heartbeat
  interval elapsed sends a second one.
\<close>

theorem one_timer_one_round_counterexample:
  "inflight (run [(10010, A_reset), (10011, A_requestCheck)] monitoringMonitor)
     = [PendingCommand 10005 False, PendingCommand 10011 False]
   \<and> length (inflight (run [(10010, A_reset), (10011, A_requestCheck)] monitoringMonitor)) = 2"
  by (simp add: monitoringMonitor_eq primaryServer_def monitor_defs)

text \<open>The theorem at a monitoring, an idle and a closed monitor.\<close>

theorem reset_rearms_witness:
  "(s_state monitoringMonitor = STATE_IDLE \<or> s_state monitoringMonitor = STATE_MONITORING)
   \<and> s_state (reset monitoringMonitor) = STATE_IDLE
   \<and> trace (reset monitoringMonitor) = trace monitoringMonitor @ [Cancel, Destroy True]
   \<and> idleMonitor
       = run [(0, A_connect), (5, A_ioCompletes 0 (ConnectReply (Inr sampleConnection)))]
           (Monitor ''db1:27017'' sampleServer defaultOptions)
   \<and> (s_state idleMonitor = STATE_IDLE \<or> s_state idleMonitor = STATE_MONITORING)
   \<and> timers (reset idleMonitor)
       = [\<lparr>handle = 1, callback = CB_requestCheck, delay = Some 10000\<rparr>]
   \<and> (s_state (close idleMonitor) = STATE_CLOSED \<or> s_state (close idleMonitor) = STATE_CLOSING)
   \<and> reset (close idleMonitor) = close idleMonitor"
proof -
  have a: "s_state monitoringMonitor = STATE_MONITORING"
      "kConnection monitoringMonitor \<noteq> None"
    by (simp_all add: monitoringMonitor_eq)
  have b: "idleMonitor
       = run [(0, A_connect), (5, A_ioCompletes 0 (ConnectReply (Inr sampleConnection)))]
           (Monitor ''db1:27017'' sampleServer defaultOptions)"
    by (simp only: idleMonitor_def sampleMonitor_def)
  have c: "s_state idleMonitor = STATE_IDLE" "nextTimerId idleMonitor = 1"
      "heartbeatFrequencyMS (options idleMonitor) = 10000"
    by (simp_all add: idleMonitor_eq)
  have d: "s_state (close idleMonitor) = STATE_CLOSED"
    by (simp add: close_closed idleMonitor_eq)
  have r1: "reset monitoringMonitor =
        monitoringMonitor\<lparr>s_state := STATE_IDLE,
          trace := trace monitoringMonitor @ Cancel #
            (if kConnection monitoringMonitor \<noteq> None then [Destroy True] else []),
          timers := filter (\<lambda>t. Some (handle t) \<noteq> kMonitorId monitoringMonitor)
              (timers monitoringMonitor)
            @ [\<lparr>handle = nextTimerId monitoringMonitor, callback = CB_requestCheck,
                delay = Some (heartbeatFrequencyMS (options monitoringMonitor))\<rparr>],
          nextTimerId := Suc (nextTimerId monitoringMonitor),
          kMonitorId := Some (nextTimerId monitoringMonitor)\<rparr>"
    using reset_rearms [of monitoringMonitor] a by blast
  have r2: "timers (reset idleMonitor) =
        [\<lparr>handle = nextTimerId idleMonitor, callback = CB_requestCheck,
          delay = Some (heartbeatFrequencyMS (options idleMonitor))\<rparr>]"
    using reset_rearms [of idleMonitor
        "[(0, A_connect), (5, A_ioCompletes 0 (ConnectReply (Inr sampleConnection)))]"
        "''db1:27017''" sampleServer defaultOptions] b c by blast
  have r3: "reset (close idleMonitor) = close idleMonitor"
    using reset_rearms [of "close idleMonitor"] d by blast
  have s1: "s_state (reset monitoringMonitor) = STATE_IDLE"
    by (subst r1) simp
  have s2: "trace (reset monitoringMonitor) = trace monitoringMonitor @ [Cancel, Destroy True]"
    using a by (subst r1) simp
  show ?thesis
    using a b c d r2 r3 s1 s2 by simp
qed

end
